theory Spec2Isabelle
  imports Complex_Main "HOL-Library.While_Combinator"
begin

section \<open>Values of the program\<close>

text \<open>
  A Go string is modelled by the list of its code points (the source iterates strings
  with \<open>range\<close>, which yields runes). Byte-wise comparison of valid UTF-8 strings agrees
  with the lexicographic order of their code points.
\<close>

type_synonym gostring = "nat list"

definition asc :: "string \<Rightarrow> gostring" where
  "asc s = map of_char s"

text \<open>
  A \<open>float64\<close>: a finite value, one of the two infinities, or NaN. The sign of zero is
  not represented (no comparison of the program can observe it). The exact result of an
  arithmetic operation on finite values is handed to a rounding function \<open>rnd\<close>, a
  parameter of the model, which may return an infinity on overflow.
\<close>

datatype f64 = NaN | PInf | NInf | Fin real

fun fadd :: "(real \<Rightarrow> f64) \<Rightarrow> f64 \<Rightarrow> f64 \<Rightarrow> f64" where
  "fadd r (Fin x) (Fin y) = r (x + y)"
| "fadd r NaN b = NaN"
| "fadd r a NaN = NaN"
| "fadd r PInf NInf = NaN"
| "fadd r NInf PInf = NaN"
| "fadd r PInf b = PInf"
| "fadd r NInf b = NInf"
| "fadd r a PInf = PInf"
| "fadd r a NInf = NInf"

fun fsub :: "(real \<Rightarrow> f64) \<Rightarrow> f64 \<Rightarrow> f64 \<Rightarrow> f64" where
  "fsub r (Fin x) (Fin y) = r (x - y)"
| "fsub r NaN b = NaN"
| "fsub r a NaN = NaN"
| "fsub r PInf PInf = NaN"
| "fsub r NInf NInf = NaN"
| "fsub r PInf b = PInf"
| "fsub r NInf b = NInf"
| "fsub r a PInf = NInf"
| "fsub r a NInf = PInf"

fun fneg :: "f64 \<Rightarrow> f64" where
  "fneg NaN = NaN"
| "fneg PInf = NInf"
| "fneg NInf = PInf"
| "fneg (Fin x) = Fin (- x)"

fun finfTimes :: "f64 \<Rightarrow> f64" where
  "finfTimes NaN = NaN"
| "finfTimes PInf = PInf"
| "finfTimes NInf = NInf"
| "finfTimes (Fin x) = (if x = 0 then NaN else if 0 < x then PInf else NInf)"

fun fmul :: "(real \<Rightarrow> f64) \<Rightarrow> f64 \<Rightarrow> f64 \<Rightarrow> f64" where
  "fmul r (Fin x) (Fin y) = r (x * y)"
| "fmul r NaN b = NaN"
| "fmul r a NaN = NaN"
| "fmul r PInf b = finfTimes b"
| "fmul r NInf b = fneg (finfTimes b)"
| "fmul r a PInf = finfTimes a"
| "fmul r a NInf = fneg (finfTimes a)"

fun fdiv :: "(real \<Rightarrow> f64) \<Rightarrow> f64 \<Rightarrow> f64 \<Rightarrow> f64" where
  "fdiv r (Fin x) (Fin y) =
     (if y = 0 then (if x = 0 then NaN else if 0 < x then PInf else NInf)
      else r (x / y))"
| "fdiv r NaN b = NaN"
| "fdiv r a NaN = NaN"
| "fdiv r (Fin x) b = Fin 0"
| "fdiv r a (Fin y) = (if 0 \<le> y then a else fneg a)"
| "fdiv r a b = NaN"

fun fsqrt :: "(real \<Rightarrow> f64) \<Rightarrow> f64 \<Rightarrow> f64" where
  "fsqrt r (Fin x) = (if x < 0 then NaN else r (sqrt x))"
| "fsqrt r PInf = PInf"
| "fsqrt r a = NaN"

fun fgt :: "f64 \<Rightarrow> f64 \<Rightarrow> bool" where
  "fgt (Fin x) (Fin y) = (y < x)"
| "fgt NaN b = False"
| "fgt a NaN = False"
| "fgt NInf b = False"
| "fgt a PInf = False"
| "fgt a b = True"

fun fle :: "f64 \<Rightarrow> f64 \<Rightarrow> bool" where
  "fle (Fin x) (Fin y) = (x \<le> y)"
| "fle NaN b = False"
| "fle a NaN = False"
| "fle NInf b = True"
| "fle a PInf = True"
| "fle a b = False"

fun feq :: "f64 \<Rightarrow> f64 \<Rightarrow> bool" where
  "feq NaN b = False"
| "feq a NaN = False"
| "feq a b = (a = b)"

text \<open>\<open>geo.Point\<close> is \<open>[2]float64\<close>: longitude, latitude.\<close>

type_synonym point = "f64 \<times> f64"

text \<open>The struct \<open>Vector\<close> (lines 61-64).\<close>

record Vector =
  dX :: f64
  dY :: f64

text \<open>
  The struct \<open>street\<close> (lines 31-36). The program handles streets through pointers
  (\<open>*street\<close>) and mutates them in place, so the model keeps a store from references to
  street values and passes references around. Every street built by
  \<open>generateStreetsFromWays\<close> owns its path (line 470), so the pointer comparison of two
  paths (line 1758) is the comparison of the two street references.
\<close>

record street =
  Path :: "point list"
  Name :: gostring
  Oneway :: gostring
  WayId :: int

type_synonym ref = nat

type_synonym store = "ref \<Rightarrow> street"

text \<open>
  A Go map from names to street slices: an association list with distinct keys. The order
  of the list is not the order in which \<open>range\<close> visits the map: that order is chosen by
  the runtime (the parameter \<open>rangeOrder\<close> below).
\<close>

type_synonym buckets = "(gostring \<times> ref list) list"

text \<open>The JSON reply of the parser service (lines 44-59).\<close>

record Classification =
  Value :: gostring
  Label :: gostring

record Solution =
  Score :: int
  Classifications :: "Classification list"

record Response =
  Solutions :: "Solution list"

text \<open>
  What \<open>http.Get\<close> followed by \<open>ioutil.ReadAll\<close> can produce: an error of the request
  itself, a response whose body cannot be read, or a response with a status code and a body.
\<close>

datatype httpReply = GetError | ReadError int | Reply int "nat list"

text \<open>
  How a call ends: it returns, the process exits with a status (\<open>os.Exit\<close>,
  \<open>log.Fatal\<close>), or the goroutine panics. A loop that does not terminate is \<open>None\<close>
  of the enclosing option type.
\<close>

datatype 'a outcome = Returned 'a | Exited int | Panicked

text \<open>
  The parts of the run that are not code of this repository are parameters of the model:
  IEEE rounding, \<open>strings.ToLower\<close>, the geometry library go.geo
  (\<open>Point.DistanceFrom\<close>, \<open>Path.Distance\<close>, \<open>Line.Intersects\<close>), the HTTP service,
  \<open>json.Unmarshal\<close> (whether it reported an error, and the object it left behind), and the
  order in which the runtime visits the entries of a map in each of the six \<open>range\<close>
  loops over maps. Distances are real numbers: every rounding of a finite result is
  covered, a NaN distance is not.
\<close>

record env =
  rnd :: "real \<Rightarrow> f64"
  toLower :: "gostring \<Rightarrow> gostring"
  distanceFrom :: "point \<Rightarrow> point \<Rightarrow> real"
  pathDistance :: "point list \<Rightarrow> real"
  lineIntersects :: "point \<times> point \<Rightarrow> point \<times> point \<Rightarrow> bool"
  httpGet :: "gostring \<Rightarrow> httpReply"
  jsonUnmarshal :: "nat list \<Rightarrow> bool \<times> Response"
  rangeOrder :: "nat \<Rightarrow> buckets \<Rightarrow> buckets"

section \<open>Direction of a chord (lines 975-996)\<close>

definition createPathVector :: "env \<Rightarrow> point \<Rightarrow> point \<Rightarrow> Vector" where
  "createPathVector e pos1 pos2 =
     (let ydiff = fsub (rnd e) (snd pos2) (snd pos1);
          xdiff = fsub (rnd e) (fst pos2) (fst pos1)
      in \<lparr>dX = xdiff, dY = ydiff\<rparr>)"

definition cosBetween2Vectors :: "env \<Rightarrow> Vector \<Rightarrow> Vector \<Rightarrow> f64" where
  "cosBetween2Vectors e a b =
     (let dividend = fadd (rnd e) (fmul (rnd e) (dX a) (dX b)) (fmul (rnd e) (dY a) (dY b));
          divisor = fmul (rnd e)
            (fsqrt (rnd e) (fadd (rnd e) (fmul (rnd e) (dX a) (dX a)) (fmul (rnd e) (dY a) (dY a))))
            (fsqrt (rnd e) (fadd (rnd e) (fmul (rnd e) (dX b) (dX b)) (fmul (rnd e) (dY b) (dY b))))
      in fdiv (rnd e) dividend divisor)"

definition isTwoPathsSameDirection :: "env \<Rightarrow> Vector \<Rightarrow> Vector \<Rightarrow> bool" where
  "isTwoPathsSameDirection e a b =
     (let cos = cosBetween2Vectors e a b in fgt cos (Fin 0) \<and> fle cos (Fin 1))"

section \<open>Accent folding (lines 526-800)\<close>

text \<open>
  The two string literals of lines 527 and 530, as code points. The source literal holds
  134 precomposed characters; its last eight (from position 126) are not in ascending
  order.
\<close>

definition sourceLiteral :: gostring where
  "sourceLiteral =
     [192, 193, 194, 195, 200, 201, 202, 204, 205, 210, 211, 212,
      213, 217, 218, 221, 224, 225, 226, 227, 232, 233, 234, 236,
      237, 242, 243, 244, 245, 249, 250, 253, 258, 259, 272, 273,
      296, 297, 360, 361, 416, 417, 431, 432, 7840, 7841, 7842, 7843,
      7844, 7845, 7846, 7847, 7848, 7849, 7850, 7851, 7852, 7853, 7854, 7855,
      7856, 7857, 7858, 7859, 7860, 7861, 7862, 7863, 7864, 7865, 7866, 7867,
      7868, 7869, 7870, 7871, 7872, 7873, 7874, 7875, 7876, 7877, 7878, 7879,
      7880, 7881, 7882, 7883, 7884, 7885, 7886, 7887, 7888, 7889, 7890, 7891,
      7892, 7893, 7894, 7895, 7896, 7897, 7898, 7899, 7900, 7901, 7902, 7903,
      7904, 7905, 7906, 7907, 7908, 7909, 7910, 7911, 7912, 7913, 7914, 7915,
      7916, 7917, 7918, 7919, 7920, 7921, 7929, 7923, 7927, 7925, 7928, 7922,
      7926, 7924]"

definition destinationLiteral :: gostring where
  "destinationLiteral = asc
     ''AAAAEEEIIOOOOUUYaaaaeeeiioooouuyAaDdIiUuOoUuAaAaAaAaAaAaAaAaAaAaAaAaEeEeEeEeEeEeEeEeIiIiOoOoOoOoOoOoOoOoOoOoOoOoUuUuUuUuUuUuUuyyyyyyyy''"

text \<open>
  \<open>stringToRune\<close> (lines 532-550): a slice of \<open>ll + 1\<close> strings, one per rune, the last
  one left at its zero value, the empty string.
\<close>

definition stringToRune :: "gostring \<Rightarrow> gostring list \<times> int" where
  "stringToRune s = (map (\<lambda>runeValue. [runeValue]) s @ [[]], int (length s))"

definition SOURCE_CHARACTERS :: "gostring list" where
  "SOURCE_CHARACTERS = fst (stringToRune sourceLiteral)"

definition LL_LENGTH :: int where
  "LL_LENGTH = snd (stringToRune sourceLiteral)"

definition DESTINATION_CHARACTERS :: "gostring list" where
  "DESTINATION_CHARACTERS = fst (stringToRune destinationLiteral)"

text \<open>Go's \<open><\<close> on strings.\<close>

fun strLess :: "gostring \<Rightarrow> gostring \<Rightarrow> bool" where
  "strLess [] [] = False"
| "strLess [] (y # ys) = True"
| "strLess (x # xs) [] = False"
| "strLess (x # xs) (y # ys) = (x < y \<or> (x = y \<and> strLess xs ys))"

text \<open>Go's integer division truncates towards zero.\<close>

definition goDiv :: "int \<Rightarrow> int \<Rightarrow> int" where
  "goDiv a b = sgn a * sgn b * (\<bar>a\<bar> div \<bar>b\<bar>)"

text \<open>
  \<open>binarySearch\<close> (lines 552-573). \<open>None\<close> is the panic of an index out of range.
\<close>

function binarySearch :: "gostring list \<Rightarrow> gostring \<Rightarrow> int \<Rightarrow> int \<Rightarrow> int option" where
  "binarySearch sortedArray key low high =
     (if high < low then Some (- 1)
      else if goDiv (low + high) 2 < 0 \<or> int (length sortedArray) \<le> goDiv (low + high) 2
        then None
      else if key = sortedArray ! nat (goDiv (low + high) 2) then Some (goDiv (low + high) 2)
      else if strLess key (sortedArray ! nat (goDiv (low + high) 2))
        then binarySearch sortedArray key low (goDiv (low + high) 2 - 1)
      else binarySearch sortedArray key (goDiv (low + high) 2 + 1) high)"
  by pat_completeness auto
termination
  by (relation "measure (\<lambda>(a, k, low, high). nat (high - low + 1))")
     (auto simp: goDiv_def sgn_if split: if_splits)

declare binarySearch.simps [simp del]

text \<open>\<open>removeAccentChar\<close> (lines 576-584).\<close>

definition removeAccentChar :: "gostring \<Rightarrow> gostring option" where
  "removeAccentChar ch =
     (case binarySearch SOURCE_CHARACTERS ch 0 LL_LENGTH of
        None \<Rightarrow> None
      | Some index \<Rightarrow>
          if 0 \<le> index then
            (if nat index < length DESTINATION_CHARACTERS
             then Some (DESTINATION_CHARACTERS ! nat index) else None)
          else Some ch)"

text \<open>
  \<open>strings.Contains\<close> and \<open>strings.ReplaceAll\<close>. The library works on bytes; on valid
  UTF-8 with valid UTF-8 patterns that is the same as working on code points.
\<close>

fun contains :: "gostring \<Rightarrow> gostring \<Rightarrow> bool" where
  "contains [] substr = (substr = [])"
| "contains (x # xs) substr = (take (length substr) (x # xs) = substr \<or> contains xs substr)"

function replaceFrom :: "gostring \<Rightarrow> gostring \<Rightarrow> gostring \<Rightarrow> gostring" where
  "replaceFrom old new [] = []"
| "replaceFrom old new (x # xs) =
     (if old \<noteq> [] \<and> take (length old) (x # xs) = old
      then new @ replaceFrom old new (drop (length old) (x # xs))
      else x # replaceFrom old new xs)"
  by pat_completeness auto
termination
  by (relation "measure (\<lambda>(old, new, s). length s)") auto

definition ReplaceAll :: "gostring \<Rightarrow> gostring \<Rightarrow> gostring \<Rightarrow> gostring" where
  "ReplaceAll s old new =
     (if old = [] then new @ concat (map (\<lambda>c. c # new) s) else replaceFrom old new s)"

text \<open>
  The replacements of lines 631-789, in the order of the source: each is
  \<open>if strings.Contains(s, old) { s = strings.ReplaceAll(s, old, new) }\<close>. Most patterns are
  a base letter followed by a combining mark (U+0300, U+0301, U+0303, U+0309, U+0323).
\<close>

definition replacements :: "(gostring \<times> gostring) list" where
  "replacements =
     [([7927], asc ''y''),
      ([7923], asc ''y''),
      ([7925], asc ''y''),
      ([121, 768], asc ''y''),
      ([121, 769], asc ''y''),
      ([244, 769], asc ''o''),
      ([244, 803], asc ''o''),
      ([417, 803], asc ''o''),
      ([244, 768], asc ''o''),
      ([417, 768], asc ''o''),
      ([244, 771], asc ''o''),
      ([417, 777], asc ''o''),
      ([111, 769], asc ''o''),
      ([111, 777], asc ''o''),
      ([111, 771], asc ''o''),
      ([242], asc ''o''),
      ([111, 768], asc ''o''),
      ([111, 803], asc ''o''),
      ([240], asc ''d''),
      ([259, 768], asc ''a''),
      ([226, 768], asc ''a''),
      ([226, 803], asc ''a''),
      ([226, 777], asc ''a''),
      ([226, 769], asc ''a''),
      ([227], asc ''a''),
      ([97, 771], asc ''a''),
      ([97, 768], asc ''a''),
      ([97, 803], asc ''a''),
      ([97, 769], asc ''a''),
      ([97, 777], asc ''a''),
      ([234, 771], asc ''e''),
      ([234, 803], asc ''e''),
      ([234, 768], asc ''e''),
      ([234, 769], asc ''e''),
      ([101, 803], asc ''e''),
      ([101, 768], asc ''e''),
      ([101, 769], asc ''e''),
      ([101, 771], asc ''e''),
      ([101, 777], asc ''e''),
      ([105, 768], asc ''i''),
      ([105, 803], asc ''i''),
      ([303], asc ''i''),
      ([105, 769], asc ''i''),
      ([105, 771], asc ''i''),
      ([105, 777], asc ''i''),
      ([432, 771], asc ''u''),
      ([432, 769], asc ''u''),
      ([432, 803], asc ''u''),
      ([117, 771], asc ''u''),
      ([117, 768], asc ''u''),
      ([117, 777], asc ''u''),
      ([117, 803], asc ''u''),
      ([117, 769], asc ''u'')]"

definition replaceStep :: "gostring \<Rightarrow> gostring \<times> gostring \<Rightarrow> gostring" where
  "replaceStep s p = (if contains s (fst p) then ReplaceAll s (fst p) (snd p) else s)"

text \<open>\<open>removeAccent\<close> (lines 587-800).\<close>

definition removeAccent :: "gostring \<Rightarrow> gostring option" where
  "removeAccent s =
     map_option concat
       (those (map (\<lambda>runeValue. removeAccentChar [runeValue]) (foldl replaceStep s replacements)))"

text \<open>
  The fold as the specification words it: a code point of the table goes to the letter at
  the same position of the destination literal, every other code point is unchanged.
\<close>

definition specAccentFold :: "nat \<Rightarrow> nat" where
  "specAccentFold c =
     (case map_of (zip sourceLiteral destinationLiteral) c of Some d \<Rightarrow> d | None \<Rightarrow> c)"

text \<open>
  The combining marks of the replacement list, the two shapes of its entries (one code
  point for one code point; a base letter and a mark for a letter), and what an entry
  does to a single code point of a string without marks.
\<close>

definition combiningMarks :: "nat set" where
  "combiningMarks = {768, 769, 771, 777, 803}"

fun plainReplacement :: "gostring \<times> gostring \<Rightarrow> bool" where
  "plainReplacement ([a], [b]) = (b \<notin> combiningMarks)"
| "plainReplacement ([a, m], new) = (m \<in> combiningMarks)"
| "plainReplacement other = False"

fun replaceCodePoint :: "nat \<Rightarrow> gostring \<times> gostring \<Rightarrow> nat" where
  "replaceCodePoint c ([a], [b]) = (if c = a then b else c)"
| "replaceCodePoint c other = c"


section \<open>The parser service (lines 802-848)\<close>

text \<open>
  The request URL: spaces become \<open>%20\<close>, then each of the characters
  \<open>( ) ' *\<close> (code points 40, 41, 39, 42) becomes \<open>%20\<close>.
\<close>

definition parserURL :: "gostring \<Rightarrow> gostring" where
  "parserURL searchText =
     (let url = asc ''http://parser.map4d.vn/parser/parse?text='' @ searchText;
          url = ReplaceAll url (asc '' '') (asc ''%20'')
      in concat (map (\<lambda>c. if c = 40 \<or> c = 41 \<or> c = 39 \<or> c = 42 then asc ''%20'' else [c]) url))"

text \<open>The loop over the classifications (lines 837-843), \<open>streetName\<close> threaded through.\<close>

fun classifyLoop :: "gostring \<Rightarrow> Classification list \<Rightarrow> gostring" where
  "classifyLoop streetName [] = streetName"
| "classifyLoop streetName (classification # rest) =
     (if Label classification = asc ''housenumber'' then []
      else if Label classification = asc ''street''
        then classifyLoop (Value classification) rest
      else classifyLoop streetName rest)"

definition pickStreetName :: "Response \<Rightarrow> gostring" where
  "pickStreetName responseObject =
     (if 0 < length (Solutions responseObject)
         \<and> 0 < length (Classifications (Solutions responseObject ! 0))
      then classifyLoop [] (Classifications (Solutions responseObject ! 0))
      else [])"

text \<open>
  \<open>streetNameParser\<close>: the error of \<open>http.Get\<close> and the error of \<open>ioutil.ReadAll\<close> end the
  process with status 1; the status code of the response is not read, and the error that
  \<open>json.Unmarshal\<close> returns is dropped (line 833).
\<close>

definition streetNameParser :: "env \<Rightarrow> gostring \<Rightarrow> gostring outcome" where
  "streetNameParser e searchText =
     (case httpGet e (parserURL searchText) of
        GetError \<Rightarrow> Exited 1
      | ReadError status \<Rightarrow> Exited 1
      | Reply status responseData \<Rightarrow>
          Returned (pickStreetName (snd (jsonUnmarshal e responseData))))"

section \<open>Distances, paths and slices (lines 850-1082)\<close>

text \<open>
  \<open>First()\<close> and \<open>Last()\<close> of a path return nil on an empty path, and the program
  dereferences the result at once: the callers below check for an empty path and panic.
\<close>

definition pathFirst :: "point list \<Rightarrow> point" where
  "pathFirst ps = hd ps"

definition pathLast :: "point list \<Rightarrow> point" where
  "pathLast ps = last ps"

definition pointEquals :: "point \<Rightarrow> point \<Rightarrow> bool" where
  "pointEquals p q = (feq (fst p) (fst q) \<and> feq (snd p) (snd q))"

definition anyEmptyPath :: "store \<Rightarrow> ref list \<Rightarrow> bool" where
  "anyEmptyPath h rs = list_ex (\<lambda>r. Path (h r) = []) rs"

definition getShortestDistance :: "env \<Rightarrow> point list \<Rightarrow> point list \<Rightarrow> real" where
  "getShortestDistance e Path1 Path2 =
     (let shortestDistance = distanceFrom e (pathFirst Path1) (pathFirst Path2);
          shortestDistance =
            (if shortestDistance > distanceFrom e (pathFirst Path1) (pathLast Path2)
             then distanceFrom e (pathFirst Path1) (pathLast Path2) else shortestDistance);
          shortestDistance =
            (if shortestDistance > distanceFrom e (pathLast Path1) (pathFirst Path2)
             then distanceFrom e (pathLast Path1) (pathFirst Path2) else shortestDistance);
          shortestDistance =
            (if shortestDistance > distanceFrom e (pathLast Path1) (pathLast Path2)
             then distanceFrom e (pathLast Path1) (pathLast Path2) else shortestDistance)
      in shortestDistance)"

definition shortestDistanceWhenSameDirection :: "env \<Rightarrow> point list \<Rightarrow> point list \<Rightarrow> real" where
  "shortestDistanceWhenSameDirection e Path1 Path2 =
     (let shortestDistance = distanceFrom e (pathLast Path1) (pathFirst Path2);
          shortestDistance =
            (if shortestDistance > distanceFrom e (pathFirst Path1) (pathLast Path2)
             then distanceFrom e (pathFirst Path1) (pathLast Path2) else shortestDistance)
      in shortestDistance)"

definition shortestDistanceToOtherSameDirectionStreets ::
    "env \<Rightarrow> store \<Rightarrow> ref \<Rightarrow> ref list \<Rightarrow> real" where
  "shortestDistanceToOtherSameDirectionStreets e h current streets =
     (if length streets < 1 then 0
      else foldl
        (\<lambda>shortestDistance s.
           let distance = shortestDistanceWhenSameDirection e (Path (h current)) (Path (h s))
           in if shortestDistance > distance then distance else shortestDistance)
        (shortestDistanceWhenSameDirection e (Path (h current)) (Path (h (hd streets))))
        (tl streets))"

definition shortestDistanceToOtherStreets :: "env \<Rightarrow> store \<Rightarrow> ref \<Rightarrow> ref list \<Rightarrow> real" where
  "shortestDistanceToOtherStreets e h current streets =
     (if length streets < 1 then 0
      else foldl
        (\<lambda>shortestDistance s.
           let distance = getShortestDistance e (Path (h current)) (Path (h s))
           in if shortestDistance > distance then distance else shortestDistance)
        (getShortestDistance e (Path (h current)) (Path (h (hd streets))))
        (tl streets))"


text \<open>
  \<open>Path.IntersectsPath\<close> is a function of the library go.geo, which is not among the
  sources: it is modelled as the library documents it, two paths intersect when a segment
  of the one intersects a segment of the other. The test of two segments,
  \<open>Line.Intersects\<close>, stays a parameter.
\<close>

definition segments :: "point list \<Rightarrow> (point \<times> point) list" where
  "segments ps = zip ps (tl ps)"

definition intersectsPath :: "env \<Rightarrow> point list \<Rightarrow> point list \<Rightarrow> bool" where
  "intersectsPath e p q =
     list_ex (\<lambda>pLine. list_ex (\<lambda>pathLine. lineIntersects e pLine pathLine) (segments q)) (segments p)"

text \<open>\<open>getLongestStreetIndex\<close> (lines 1011-1022).\<close>

definition getLongestStreetIndex :: "env \<Rightarrow> store \<Rightarrow> ref list \<Rightarrow> nat" where
  "getLongestStreetIndex e h streets =
     snd (foldl
       (\<lambda>(distance, index) (i, s).
          if distance < pathDistance e (Path (h s)) then (pathDistance e (Path (h s)), i)
          else (distance, index))
       (0, 0) (zip [0 ..< length streets] streets))"

text \<open>
  \<open>sortStreetsDescLength\<close> (lines 1024-1046): for each \<open>i\<close> below \<open>len - 1\<close>, for each
  \<open>j\<close> from \<open>i\<close>, swap the entries \<open>i\<close> and \<open>j\<close> when the one at \<open>j\<close> is longer.
\<close>

definition sortInner :: "env \<Rightarrow> store \<Rightarrow> nat \<Rightarrow> ref list \<Rightarrow> ref list" where
  "sortInner e h i sortedStreets =
     foldl
       (\<lambda>xs j. if pathDistance e (Path (h (xs ! j))) > pathDistance e (Path (h (xs ! i)))
                then xs[i := xs ! j, j := xs ! i] else xs)
       sortedStreets [i ..< length sortedStreets]"

definition sortStreetsDescLength :: "env \<Rightarrow> store \<Rightarrow> ref list \<Rightarrow> ref list" where
  "sortStreetsDescLength e h streets =
     foldl (\<lambda>xs i. sortInner e h i xs) streets [0 ..< length streets - 1]"

text \<open>
  \<open>removeStreet\<close> (lines 1061-1070): a new slice without the entry at \<open>index\<close>; an index
  outside the slice (the program passes \<open>-1\<close>) removes nothing.
\<close>

fun removeFrom :: "int \<Rightarrow> int \<Rightarrow> 'a list \<Rightarrow> 'a list" where
  "removeFrom index i [] = []"
| "removeFrom index i (x # xs) =
     (if index = i then removeFrom index (i + 1) xs else x # removeFrom index (i + 1) xs)"

definition removeStreet :: "'a list \<Rightarrow> int \<Rightarrow> 'a list" where
  "removeStreet s index = removeFrom index 0 s"

text \<open>
  \<open>removeRoundabout\<close> (lines 1072-1082): every street whose first point is at distance 0
  from its last point is removed.
\<close>

fun removeRoundabout :: "env \<Rightarrow> store \<Rightarrow> ref list \<Rightarrow> ref list" where
  "removeRoundabout e h [] = []"
| "removeRoundabout e h (r # rs) =
     (if distanceFrom e (pathFirst (Path (h r))) (pathLast (Path (h r))) = 0
      then removeRoundabout e h rs else r # removeRoundabout e h rs)"

section \<open>Maps, strings and loops\<close>

text \<open>
  \<open>m[k] = v\<close>, and the idiom of the program
  \<open>if _, ok := m[k]; !ok { m[k] = []*street{s} } else { m[k] = append(m[k], s) }\<close>.
\<close>

fun mapSet :: "buckets \<Rightarrow> gostring \<Rightarrow> ref list \<Rightarrow> buckets" where
  "mapSet [] k v = [(k, v)]"
| "mapSet ((k', v') # m) k v = (if k' = k then (k, v) # m else (k', v') # mapSet m k v)"

fun mapAppend :: "buckets \<Rightarrow> gostring \<Rightarrow> ref \<Rightarrow> buckets" where
  "mapAppend [] k s = [(k, [s])]"
| "mapAppend ((k', v') # m) k s =
     (if k' = k then (k, v' @ [s]) # m else (k', v') # mapAppend m k s)"

definition hasPrefix :: "gostring \<Rightarrow> gostring \<Rightarrow> bool" where
  "hasPrefix s prefix = (take (length prefix) s = prefix)"

text \<open>\<open>strings.Split(s, sep)[0]\<close> for a separator that is not empty.\<close>

fun splitHead :: "gostring \<Rightarrow> gostring \<Rightarrow> gostring" where
  "splitHead sep [] = []"
| "splitHead sep (x # xs) =
     (if take (length sep) (x # xs) = sep then [] else x # splitHead sep xs)"

text \<open>\<open>strconv.Itoa\<close> of a number that is not negative.\<close>

function itoa :: "nat \<Rightarrow> gostring" where
  "itoa n = (if n < 10 then [48 + n] else itoa (n div 10) @ [48 + n mod 10])"
  by pat_completeness auto
termination
  by (relation "measure (\<lambda>n. n)") auto

text \<open>\<open>sort.Strings\<close>: ascending in Go's order of strings.\<close>

fun insertString :: "gostring \<Rightarrow> gostring list \<Rightarrow> gostring list" where
  "insertString k [] = [k]"
| "insertString k (x # xs) = (if strLess x k then x # insertString k xs else k # x # xs)"

definition sortStrings :: "gostring list \<Rightarrow> gostring list" where
  "sortStrings ks = foldr insertString ks []"

text \<open>
  The local variables of the loops of \<open>joinStreets\<close> and of the three merge functions.
  A loop uses only some of them; \<open>idx\<close> is the loop variable \<open>i\<close>, \<open>base\<close> is
  \<open>baseStreet\<close> (\<open>str1\<close> in \<open>mergeStreetSameDirection\<close>), \<open>out\<close> is the map the loop fills.
\<close>

record loopState =
  hp :: store
  out :: buckets
  strs :: "ref list"
  idx :: int
  base :: ref
  baseVector :: Vector
  groupNo :: nat
  streetGroup :: "ref list"
  normName :: gostring

text \<open>
  \<open>for i := 0; i < len(strs); i++ { body }\<close>, where the body may change \<open>i\<close> and
  \<open>strs\<close>. \<open>None\<close> when the loop does not terminate.
\<close>

definition goFor ::
    "(loopState \<Rightarrow> loopState outcome) \<Rightarrow> loopState \<Rightarrow> loopState outcome option" where
  "goFor body s0 =
     while_option
       (\<lambda>r. case r of Returned s \<Rightarrow> idx s < int (length (strs s)) | _ \<Rightarrow> False)
       (\<lambda>r. case r of
               Returned s \<Rightarrow>
                 (case body s of Returned s' \<Rightarrow> Returned (s'\<lparr>idx := idx s' + 1\<rparr>) | x \<Rightarrow> x)
             | x \<Rightarrow> x)
       (Returned (s0\<lparr>idx := 0\<rparr>))"

text \<open>Sequencing of calls that may exit, panic or diverge.\<close>

definition andThen :: "'a outcome option \<Rightarrow> ('a \<Rightarrow> 'b outcome option) \<Rightarrow> 'b outcome option" where
  "andThen m f =
     (case m of
        None \<Rightarrow> None
      | Some (Returned x) \<Rightarrow> f x
      | Some (Exited c) \<Rightarrow> Some (Exited c)
      | Some Panicked \<Rightarrow> Some Panicked)"

text \<open>\<open>for k, v := range m { body }\<close> over the entries in the order given.\<close>

fun rangeOver :: "('a \<Rightarrow> gostring \<times> ref list \<Rightarrow> 'a outcome option) \<Rightarrow> 'a \<Rightarrow> buckets
    \<Rightarrow> 'a outcome option" where
  "rangeOver body a [] = Some (Returned a)"
| "rangeOver body a (entry # entries) =
     (case body a entry of
        None \<Rightarrow> None
      | Some (Returned a') \<Rightarrow> rangeOver body a' entries
      | Some (Exited c) \<Rightarrow> Some (Exited c)
      | Some Panicked \<Rightarrow> Some Panicked)"

section \<open>Normalisation of the names (lines 174-215)\<close>

text \<open>
  The first loop of \<open>joinStreets\<close>: the name is lowercased and accent-folded, noise names
  are skipped, the parser is asked, and the street is renamed and filed under the name
  the parser returned. The literal of line 197 is the word of code points
  273, 432, 7901, 110, 103.
\<close>

fun normalizeStreets :: "env \<Rightarrow> store \<times> buckets \<Rightarrow> ref list \<Rightarrow> (store \<times> buckets) outcome" where
  "normalizeStreets e (h, nameMap) [] = Returned (h, nameMap)"
| "normalizeStreets e (h, nameMap) (st # rest) =
     (let normNameHasSign = toLower e (Name (h st)) in
      case removeAccent normNameHasSign of
        None \<Rightarrow> Panicked
      | Some folded \<Rightarrow>
          if hasPrefix folded (asc ''kiet'') \<or> hasPrefix folded (asc ''hem'')
             \<or> hasPrefix folded (asc ''cau'') \<or> hasPrefix folded (asc ''vong xuyen'')
          then normalizeStreets e (h, nameMap) rest
          else if folded = asc ''ngo chu huy man''
          then normalizeStreets e (h, nameMap) rest
          else
            (case (if \<not> hasPrefix normNameHasSign [273, 432, 7901, 110, 103]
                   then streetNameParser e (asc ''duong '' @ folded)
                   else streetNameParser e folded) of
               Exited c \<Rightarrow> Exited c
             | Panicked \<Rightarrow> Panicked
             | Returned parsed \<Rightarrow>
                 if parsed = [] then normalizeStreets e (h, nameMap) rest
                 else normalizeStreets e
                        (h(st := (h st)\<lparr>Name := parsed\<rparr>), mapAppend nameMap parsed st) rest))"

section \<open>Proximity groups (lines 217-265)\<close>

definition distanceGroup :: real where
  "distanceGroup = 0.003"

text \<open>
  \<open>shortestDistanceToOtherStreets\<close> and its sibling dereference the first and last point
  of the current street and of every street of the list, unless the list is empty.
\<close>

definition distPanics :: "store \<Rightarrow> ref \<Rightarrow> ref list \<Rightarrow> bool" where
  "distPanics h current streets = (streets \<noteq> [] \<and> anyEmptyPath h (current # streets))"

text \<open>The body of the loop of lines 234-264.\<close>

definition proximityBody :: "env \<Rightarrow> loopState \<Rightarrow> loopState outcome" where
  "proximityBody e s =
     (if idx s = 0 then
        (let baseStreet = strs s ! 0;
             groupName = toLower e (Name (hp s baseStreet)) @ asc ''__'' @ itoa (groupNo s)
         in Returned (s\<lparr>base := baseStreet, normName := groupName,
                        streetGroup := [baseStreet], groupNo := groupNo s + 1,
                        out := mapSet (out s) groupName [baseStreet]\<rparr>))
      else
        (let currentStreet = strs s ! nat (idx s) in
         if distPanics (hp s) currentStreet (streetGroup s) then Panicked
         else if shortestDistanceToOtherStreets e (hp s) currentStreet (streetGroup s)
                   < distanceGroup
         then Returned (s\<lparr>streetGroup := streetGroup s @ [currentStreet],
                          out := mapAppend (out s) (normName s) currentStreet,
                          strs := removeStreet (strs s) (idx s), idx := 0\<rparr>)
         else if idx s = int (length (strs s)) - 1
         then Returned (s\<lparr>strs := removeStreet (strs s) 0, idx := - 1\<rparr>)
         else Returned s))"

definition noVector :: Vector where
  "noVector = \<lparr>dX = Fin 0, dY = Fin 0\<rparr>"

text \<open>
  One pass of the loop of line 223 for the entry \<open>(name, strs)\<close>; line 227 reads
  \<open>strs[0]\<close> and panics on an empty slice. Variables that Go initialises to nil start
  with a placeholder; the program assigns them before it reads them.
\<close>

definition proximityGroups ::
    "env \<Rightarrow> store \<Rightarrow> buckets \<Rightarrow> gostring \<times> ref list \<Rightarrow> buckets outcome option" where
  "proximityGroups e h groupDistanceNameMap entry =
     (let sorted = sortStreetsDescLength e h (snd entry) in
      if sorted = [] then Some Panicked
      else andThen
        (goFor (proximityBody e)
           \<lparr>hp = h, out = groupDistanceNameMap, strs = sorted, idx = 0, base = 0,
            baseVector = noVector, groupNo = 1, streetGroup = [],
            normName = toLower e (Name (h (sorted ! 0)))\<rparr>)
        (\<lambda>s. Some (Returned (out s))))"

section \<open>Direction groups (lines 267-354)\<close>

text \<open>The end of both branches of the loop body (lines 329-333 and 347-351).\<close>

definition dropHeadAtEnd :: "loopState \<Rightarrow> loopState" where
  "dropHeadAtEnd s =
     (if idx s = int (length (strs s)) - 1
      then s\<lparr>strs := removeStreet (strs s) 0, idx := - 1\<rparr> else s)"

definition newDirectionGroup :: "gostring \<Rightarrow> loopState \<Rightarrow> loopState" where
  "newDirectionGroup groupStreetName s =
     (let groupName = groupStreetName @ asc ''--'' @ itoa (groupNo s)
      in s\<lparr>normName := groupName, groupNo := groupNo s + 1,
           out := mapAppend (out s) groupName (base s)\<rparr>)"

definition directionBody :: "env \<Rightarrow> gostring \<Rightarrow> loopState \<Rightarrow> loopState outcome" where
  "directionBody e groupStreetName s0 =
     (if idx s0 = 0 \<and> Path (hp s0 (strs s0 ! 0)) = [] then Panicked
      else
        (let s = (if idx s0 = 0
                  then s0\<lparr>base := strs s0 ! 0,
                          baseVector := createPathVector e
                            (pathFirst (Path (hp s0 (strs s0 ! 0))))
                            (pathLast (Path (hp s0 (strs s0 ! 0))))\<rparr>
                  else s0);
             currentStreet = strs s ! nat (idx s)
         in
         if Oneway (hp s currentStreet) = asc ''yes'' then
           (if length (strs s) \<le> 1 then Returned (newDirectionGroup groupStreetName s)
            else if idx s = 0 then Returned (newDirectionGroup groupStreetName s)
            else if Path (hp s currentStreet) = [] then Panicked
            else
              (let sameDirection = isTwoPathsSameDirection e (baseVector s)
                     (createPathVector e (pathFirst (Path (hp s currentStreet)))
                        (pathLast (Path (hp s currentStreet))));
                   s1 = (if sameDirection
                         then s\<lparr>out := mapAppend (out s) (normName s) currentStreet,
                                strs := removeStreet (strs s) (idx s), idx := idx s - 1\<rparr>
                         else s)
               in Returned (dropHeadAtEnd s1)))
         else
           Returned (dropHeadAtEnd
             (s\<lparr>out := mapAppend (out s) groupStreetName currentStreet,
                strs := removeStreet (strs s) (idx s), idx := idx s - 1\<rparr>))))"

definition directionGroups ::
    "env \<Rightarrow> store \<Rightarrow> buckets \<Rightarrow> gostring \<times> ref list \<Rightarrow> buckets outcome option" where
  "directionGroups e h groupDirectionNameMap entry =
     andThen
       (goFor (directionBody e (fst entry))
          \<lparr>hp = h, out = groupDirectionNameMap, strs = sortStreetsDescLength e h (snd entry),
           idx = 0, base = 0, baseVector = noVector, groupNo = 0, streetGroup = [],
           normName = fst entry\<rparr>)
       (\<lambda>s. Some (Returned (out s)))"

section \<open>Merging one path into another\<close>

text \<open>
  The four merges of the program (for example lines 1287-1367). \<open>match\<close> is a pointer
  into the point array of the base street (\<open>First()\<close> and \<open>Last()\<close> return the address
  of the array's entry), taken before the paths are reversed in place and read while the
  points are pushed: the model reads the entry at the same position after the reversals.
  The range loop reads the slice of the merged street once, before the first push.
\<close>

definition distanceTolerance :: real where
  "distanceTolerance = 0.003"

definition reversePath :: "store \<Rightarrow> ref \<Rightarrow> store" where
  "reversePath h a = h(a := (h a)\<lparr>Path := rev (Path (h a))\<rparr>)"

definition pushAll :: "store \<Rightarrow> ref \<Rightarrow> ref \<Rightarrow> point \<Rightarrow> store" where
  "pushAll h a b match =
     h(a := (h a)\<lparr>Path := Path (h a) @ filter (\<lambda>point. \<not> pointEquals point match) (Path (h b))\<rparr>)"

definition mergeLastFirst :: "store \<Rightarrow> ref \<Rightarrow> ref \<Rightarrow> store" where
  "mergeLastFirst h a b = pushAll h a b (pathLast (Path (h a)))"

definition mergeFirstLast :: "store \<Rightarrow> ref \<Rightarrow> ref \<Rightarrow> store" where
  "mergeFirstLast h a b =
     (let h1 = reversePath h a;
          h2 = reversePath h1 b;
          h3 = pushAll h2 a b (pathFirst (Path (h2 a)));
          h4 = reversePath h3 a
      in reversePath h4 b)"

definition mergeLastLast :: "store \<Rightarrow> ref \<Rightarrow> ref \<Rightarrow> store" where
  "mergeLastLast h a b =
     (let h1 = reversePath h b;
          h2 = pushAll h1 a b (pathLast (Path (h1 a)))
      in reversePath h2 b)"

definition mergeFirstFirst :: "store \<Rightarrow> ref \<Rightarrow> ref \<Rightarrow> store" where
  "mergeFirstFirst h a b =
     (let h1 = reversePath h a;
          h2 = pushAll h1 a b (pathFirst (Path (h1 a)))
      in reversePath h2 a)"

section \<open>mergeStreetSameDirection (lines 1115-1413)\<close>

definition distanceRangeSameDirection :: real where
  "distanceRangeSameDirection = 0.00065"

text \<open>
  Lines 1397-1408, and the same steps inside the guard (lines 1173-1184): the head of the
  list is removed and \<open>str1\<close> is filed.
\<close>

definition fileBaseDropHead :: "gostring \<Rightarrow> loopState \<Rightarrow> loopState" where
  "fileBaseDropHead strName s =
     s\<lparr>strs := removeStreet (strs s) 0, idx := - 1, normName := strName,
       out := mapAppend (out s) strName (base s)\<rparr>"

definition sameDirectionTail :: "gostring \<Rightarrow> loopState \<Rightarrow> loopState" where
  "sameDirectionTail strName s =
     (if idx s = int (length (strs s)) - 1 \<or> length (strs s) < 1
      then fileBaseDropHead strName s else s)"

text \<open>
  The body of the loop of line 1139; \<open>b\<close> is \<open>str1\<close> and \<open>c\<close> is \<open>str2\<close>. The map
  \<open>merged\<close> is written and never read, and \<open>debugMode\<close> is false.
\<close>

definition mergeSameDirectionBody :: "env \<Rightarrow> gostring \<Rightarrow> loopState \<Rightarrow> loopState outcome" where
  "mergeSameDirectionBody e strName s =
     (if length (strs s) = 1
      then Returned (s\<lparr>out := mapAppend (out s) (normName s) (strs s ! 0)\<rparr>)
      else if idx s = 0 then Returned (s\<lparr>base := strs s ! 0\<rparr>)
      else
        (let h = hp s; b = base s; c = strs s ! nat (idx s) in
         if distPanics h b (removeStreet (strs s) 0) \<or> Path (h b) = [] \<or> Path (h c) = []
         then Panicked
         else
           (let sdOthers = shortestDistanceToOtherStreets e h b (removeStreet (strs s) 0);
                sdSameDir =
                  shortestDistanceToOtherSameDirectionStreets e h b (removeStreet (strs s) 0);
                sameDirection = isTwoPathsSameDirection e
                  (createPathVector e (pathFirst (Path (h b))) (pathLast (Path (h b))))
                  (createPathVector e (pathFirst (Path (h c))) (pathLast (Path (h c))))
            in
            if Oneway (h c) = asc ''yes'' then
              (if intersectsPath e (Path (h b)) (Path (h c))
                  \<and> shortestDistanceWhenSameDirection e (Path (h b)) (Path (h c))
                      > distanceRangeSameDirection
               then (if idx s = int (length (strs s)) - 1
                     then Returned (fileBaseDropHead strName s) else Returned s)
               else if sameDirection
                 \<and> distanceFrom e (pathLast (Path (h b))) (pathFirst (Path (h c))) = sdSameDir
                 \<and> sdSameDir < distanceTolerance
              then Returned (sameDirectionTail strName
                (s\<lparr>hp := mergeLastFirst h b c, strs := removeStreet (strs s) (idx s),
                   idx := 0\<rparr>))
              else if sameDirection
                 \<and> distanceFrom e (pathFirst (Path (h b))) (pathLast (Path (h c))) = sdSameDir
                 \<and> sdSameDir < distanceTolerance
              then Returned (sameDirectionTail strName
                (s\<lparr>hp := mergeFirstLast h b c, strs := removeStreet (strs s) (idx s),
                   idx := 0\<rparr>))
              else if (distanceFrom e (pathLast (Path (h b))) (pathFirst (Path (h c))) = sdSameDir
                       \<or> distanceFrom e (pathFirst (Path (h b))) (pathLast (Path (h c))) = sdSameDir)
                 \<and> sdSameDir \<ge> distanceTolerance
              then Returned (sameDirectionTail strName
                (s\<lparr>out := mapAppend (out s) (normName s) c,
                   strs := removeStreet (strs s) (idx s), idx := idx s - 1\<rparr>))
              else Returned (sameDirectionTail strName s))
            else
              (if intersectsPath e (Path (h b)) (Path (h c))
                  \<and> getShortestDistance e (Path (h b)) (Path (h c)) > distanceRangeSameDirection
               then (if idx s = int (length (strs s)) - 1
                     then Returned (fileBaseDropHead strName s) else Returned s)
               else if distanceFrom e (pathLast (Path (h b))) (pathFirst (Path (h c))) = sdOthers
                 \<and> sdOthers < distanceTolerance
              then Returned (sameDirectionTail strName
                (s\<lparr>hp := mergeLastFirst h b c, strs := removeStreet (strs s) (idx s),
                   idx := 0\<rparr>))
              else if distanceFrom e (pathFirst (Path (h b))) (pathLast (Path (h c))) = sdOthers
                 \<and> sdOthers < distanceTolerance
              then Returned (sameDirectionTail strName
                (s\<lparr>hp := mergeFirstLast h b c, strs := removeStreet (strs s) (idx s),
                   idx := 0\<rparr>))
              else if distanceFrom e (pathLast (Path (h b))) (pathLast (Path (h c))) = sdOthers
                 \<and> sdOthers < distanceTolerance
              then Returned (sameDirectionTail strName
                (s\<lparr>hp := mergeLastLast h b c, strs := removeStreet (strs s) (idx s),
                   idx := 0\<rparr>))
              else if distanceFrom e (pathFirst (Path (h b))) (pathFirst (Path (h c))) = sdOthers
                 \<and> sdOthers < distanceTolerance
              then Returned (sameDirectionTail strName
                (s\<lparr>hp := mergeFirstFirst h b c, strs := removeStreet (strs s) (idx s),
                   idx := 0\<rparr>))
              else if (distanceFrom e (pathLast (Path (h b))) (pathFirst (Path (h c))) = sdOthers
                    \<or> distanceFrom e (pathFirst (Path (h b))) (pathLast (Path (h c))) = sdOthers
                    \<or> distanceFrom e (pathLast (Path (h b))) (pathLast (Path (h c))) = sdOthers
                    \<or> distanceFrom e (pathFirst (Path (h b))) (pathFirst (Path (h c))) = sdOthers)
              then Returned (sameDirectionTail strName
                (s\<lparr>out := mapAppend (out s) (normName s) c,
                   strs := removeStreet (strs s) (idx s), idx := idx s - 1\<rparr>))
              else Returned (sameDirectionTail strName s)))))"

text \<open>One pass of the loop of line 1131.\<close>

definition mergeSameDirectionEntry ::
    "env \<Rightarrow> store \<times> buckets \<Rightarrow> gostring \<times> ref list \<Rightarrow> (store \<times> buckets) outcome option" where
  "mergeSameDirectionEntry e acc entry =
     andThen
       (goFor (mergeSameDirectionBody e (fst entry))
          \<lparr>hp = fst acc, out = snd acc,
           strs = sortStreetsDescLength e (fst acc) (snd entry), idx = 0, base = 0,
           baseVector = noVector, groupNo = 0, streetGroup = [], normName = fst entry\<rparr>)
       (\<lambda>s. Some (Returned (hp s, out s)))"

definition mergeStreetSameDirection ::
    "env \<Rightarrow> store \<Rightarrow> buckets \<Rightarrow> (store \<times> buckets) outcome option" where
  "mergeStreetSameDirection e h nameMap =
     rangeOver (mergeSameDirectionEntry e) (h, []) (rangeOrder e 3 nameMap)"

section \<open>mergeLaneSameDirection (lines 1417-1707) and mergeStreet (lines 1710-1916)\<close>

definition distanceRangeLane :: real where
  "distanceRangeLane = 0.0005"

definition distanceRangeFinal :: real where
  "distanceRangeFinal = 0.0003"

text \<open>
  Lines 1691-1701 and 1902-1911: at the end of the list the entry at \<open>i\<close> is removed and
  the base street is filed; and the same filing after a refusal (for example lines
  1476-1487), where the list is left as it is.
\<close>

definition fileBaseAtEnd :: "loopState \<Rightarrow> loopState" where
  "fileBaseAtEnd s =
     (if idx s = int (length (strs s)) - 1 \<or> length (strs s) < 1
      then s\<lparr>out := mapAppend (out s) (normName s) (base s)\<rparr> else s)"

definition laneTail :: "loopState \<Rightarrow> loopState" where
  "laneTail s =
     (if idx s = int (length (strs s)) - 1 \<or> length (strs s) < 1
      then s\<lparr>strs := removeStreet (strs s) (idx s), idx := - 1,
             out := mapAppend (out s) (normName s) (base s)\<rparr>
      else s)"

text \<open>The refusal: the current street leaves the list, no path changes.\<close>

definition refuse :: "loopState \<Rightarrow> loopState" where
  "refuse s = fileBaseAtEnd (s\<lparr>strs := removeStreet (strs s) (idx s), idx := idx s - 1\<rparr>)"

text \<open>The body of the loop of line 1456; \<open>b\<close> is \<open>baseStreet\<close>, \<open>c\<close> is \<open>currentStreet\<close>.\<close>

definition mergeLaneBody :: "env \<Rightarrow> loopState \<Rightarrow> loopState outcome" where
  "mergeLaneBody e s =
     (let h = hp s; b = base s; c = strs s ! nat (idx s) in
      if distPanics h b (strs s) \<or> Path (h b) = [] \<or> Path (h c) = [] then Panicked
      else
        (let sdOthers = shortestDistanceToOtherStreets e h b (strs s);
             sdSameDir = shortestDistanceToOtherSameDirectionStreets e h b (strs s);
             sameDirection = isTwoPathsSameDirection e
               (createPathVector e (pathFirst (Path (h b))) (pathLast (Path (h b))))
               (createPathVector e (pathFirst (Path (h c))) (pathLast (Path (h c))))
         in
         if Oneway (h c) = asc ''yes'' then
           (if (intersectsPath e (Path (h b)) (Path (h c))
                \<and> shortestDistanceWhenSameDirection e (Path (h b)) (Path (h c))
                    > distanceRangeLane)
               \<or> shortestDistanceWhenSameDirection e (Path (h b)) (Path (h c))
                    > distanceTolerance
            then Returned (refuse s)
            else if sameDirection
                 \<and> distanceFrom e (pathLast (Path (h b))) (pathFirst (Path (h c))) = sdSameDir
                 \<and> sdSameDir < distanceTolerance
              then Returned (laneTail
                (s\<lparr>hp := mergeLastFirst h b c, strs := removeStreet (strs s) (idx s),
                   idx := - 1\<rparr>))
              else if sameDirection
                 \<and> distanceFrom e (pathFirst (Path (h b))) (pathLast (Path (h c))) = sdSameDir
                 \<and> sdSameDir < distanceTolerance
              then Returned (laneTail
                (s\<lparr>hp := mergeFirstLast h b c, strs := removeStreet (strs s) (idx s),
                   idx := - 1\<rparr>))
              else if (distanceFrom e (pathLast (Path (h b))) (pathFirst (Path (h c))) = sdSameDir
                       \<or> distanceFrom e (pathFirst (Path (h b))) (pathLast (Path (h c))) = sdSameDir)
                 \<and> sdSameDir \<ge> distanceTolerance
              then Returned (laneTail
                (s\<lparr>out := mapAppend (out s) (normName s) c,
                   strs := removeStreet (strs s) (idx s), idx := idx s - 1\<rparr>))
              else Returned (laneTail s))
         else
           (if intersectsPath e (Path (h b)) (Path (h c))
               \<and> getShortestDistance e (Path (h b)) (Path (h c)) > distanceRangeLane
            then Returned (refuse s)
            else if distanceFrom e (pathLast (Path (h b))) (pathFirst (Path (h c))) = sdOthers
                 \<and> sdOthers < distanceTolerance
              then Returned (laneTail
                (s\<lparr>hp := mergeLastFirst h b c, strs := removeStreet (strs s) (idx s),
                   idx := - 1\<rparr>))
              else if distanceFrom e (pathFirst (Path (h b))) (pathLast (Path (h c))) = sdOthers
                 \<and> sdOthers < distanceTolerance
              then Returned (laneTail
                (s\<lparr>hp := mergeFirstLast h b c, strs := removeStreet (strs s) (idx s),
                   idx := - 1\<rparr>))
              else if distanceFrom e (pathLast (Path (h b))) (pathLast (Path (h c))) = sdOthers
                 \<and> sdOthers < distanceTolerance
              then Returned (laneTail
                (s\<lparr>hp := mergeLastLast h b c, strs := removeStreet (strs s) (idx s),
                   idx := - 1\<rparr>))
              else if distanceFrom e (pathFirst (Path (h b))) (pathFirst (Path (h c))) = sdOthers
                 \<and> sdOthers < distanceTolerance
              then Returned (laneTail
                (s\<lparr>hp := mergeFirstFirst h b c, strs := removeStreet (strs s) (idx s),
                   idx := - 1\<rparr>))
            else if (distanceFrom e (pathLast (Path (h b))) (pathFirst (Path (h c))) = sdOthers
                    \<or> distanceFrom e (pathFirst (Path (h b))) (pathLast (Path (h c))) = sdOthers
                    \<or> distanceFrom e (pathLast (Path (h b))) (pathLast (Path (h c))) = sdOthers
                    \<or> distanceFrom e (pathFirst (Path (h b))) (pathFirst (Path (h c))) = sdOthers)
            then Returned (laneTail
              (s\<lparr>out := mapAppend (out s) (normName s) c,
                 strs := removeStreet (strs s) (idx s), idx := idx s - 1\<rparr>))
            else Returned (laneTail s))))"

text \<open>One pass of the loop of line 1433.\<close>

definition mergeLaneEntry ::
    "env \<Rightarrow> store \<times> buckets \<Rightarrow> gostring \<times> ref list \<Rightarrow> (store \<times> buckets) outcome option" where
  "mergeLaneEntry e acc entry =
     (let sorted = sortStreetsDescLength e (fst acc) (snd entry);
          laneName = splitHead (asc ''--'') (fst entry)
      in
      if length sorted < 1 then Some (Returned acc)
      else if length sorted = 1
      then Some (Returned (fst acc, mapAppend (snd acc) laneName (sorted ! 0)))
      else
        (let index = getLongestStreetIndex e (fst acc) sorted in
         andThen
           (goFor (mergeLaneBody e)
              \<lparr>hp = fst acc, out = snd acc, strs = removeStreet sorted (int index), idx = 0,
               base = sorted ! index, baseVector = noVector, groupNo = 0, streetGroup = [],
               normName = laneName\<rparr>)
           (\<lambda>s. Some (Returned (hp s, out s)))))"

definition mergeLaneSameDirection ::
    "env \<Rightarrow> store \<Rightarrow> buckets \<Rightarrow> (store \<times> buckets) outcome option" where
  "mergeLaneSameDirection e h nameMap =
     rangeOver (mergeLaneEntry e) (h, []) (rangeOrder e 4 nameMap)"

text \<open>The body of the loop of line 1747.\<close>

definition mergeStreetBody :: "env \<Rightarrow> loopState \<Rightarrow> loopState outcome" where
  "mergeStreetBody e s =
     (let h = hp s; b = base s; c = strs s ! nat (idx s) in
      if distPanics h b (strs s) then Panicked
      else if b = c then Returned (refuse s)
      else if Path (h b) = [] \<or> Path (h c) = [] then Panicked
      else
        (let sdOthers = shortestDistanceToOtherStreets e h b (strs s);
             sdSameDir = shortestDistanceToOtherSameDirectionStreets e h b (strs s);
             sameDirection = isTwoPathsSameDirection e
               (createPathVector e (pathFirst (Path (h b))) (pathLast (Path (h b))))
               (createPathVector e (pathFirst (Path (h c))) (pathLast (Path (h c))))
         in
         if (sdSameDir = 0 \<and> sdSameDir = sdOthers) \<and> \<not> sameDirection
            \<and> idx s < int (length (strs s)) - 1
         then Returned s
         else if intersectsPath e (Path (h b)) (Path (h c))
            \<and> getShortestDistance e (Path (h b)) (Path (h c)) > distanceRangeFinal
         then Returned (refuse s)
         else if distanceFrom e (pathLast (Path (h b))) (pathFirst (Path (h c))) = sdOthers
                 \<and> sdOthers < distanceTolerance
              then Returned (laneTail
                (s\<lparr>hp := mergeLastFirst h b c, strs := removeStreet (strs s) (idx s),
                   idx := - 1\<rparr>))
              else if distanceFrom e (pathFirst (Path (h b))) (pathLast (Path (h c))) = sdOthers
                 \<and> sdOthers < distanceTolerance
              then Returned (laneTail
                (s\<lparr>hp := mergeFirstLast h b c, strs := removeStreet (strs s) (idx s),
                   idx := - 1\<rparr>))
              else if distanceFrom e (pathLast (Path (h b))) (pathLast (Path (h c))) = sdOthers
                 \<and> sdOthers < distanceTolerance
              then Returned (laneTail
                (s\<lparr>hp := mergeLastLast h b c, strs := removeStreet (strs s) (idx s),
                   idx := - 1\<rparr>))
              else if distanceFrom e (pathFirst (Path (h b))) (pathFirst (Path (h c))) = sdOthers
                 \<and> sdOthers < distanceTolerance
              then Returned (laneTail
                (s\<lparr>hp := mergeFirstFirst h b c, strs := removeStreet (strs s) (idx s),
                   idx := - 1\<rparr>))
         else if (distanceFrom e (pathLast (Path (h b))) (pathFirst (Path (h c))) = sdOthers
                    \<or> distanceFrom e (pathFirst (Path (h b))) (pathLast (Path (h c))) = sdOthers
                    \<or> distanceFrom e (pathLast (Path (h b))) (pathLast (Path (h c))) = sdOthers
                    \<or> distanceFrom e (pathFirst (Path (h b))) (pathFirst (Path (h c))) = sdOthers)
         then Returned (laneTail (s\<lparr>out := mapAppend (out s) (normName s) c\<rparr>))
         else Returned (laneTail s)))"

text \<open>
  One pass of the loop of line 1725. \<open>removeRoundabout\<close> dereferences the first and last
  point of every street of the list.
\<close>

definition mergeStreetEntry ::
    "env \<Rightarrow> store \<times> buckets \<Rightarrow> gostring \<times> ref list \<Rightarrow> (store \<times> buckets) outcome option" where
  "mergeStreetEntry e acc entry =
     (let sorted = sortStreetsDescLength e (fst acc) (snd entry) in
      if anyEmptyPath (fst acc) sorted then Some Panicked
      else
        (let kept = removeRoundabout e (fst acc) sorted;
             finalName = splitHead (asc ''__'') (fst entry)
         in
         if length kept < 1 then Some (Returned acc)
         else if length kept = 1
         then Some (Returned (fst acc, mapAppend (snd acc) finalName (kept ! 0)))
         else
           (let index = getLongestStreetIndex e (fst acc) kept in
            andThen
              (goFor (mergeStreetBody e)
                 \<lparr>hp = fst acc, out = snd acc, strs = removeStreet kept (int index), idx = 0,
                  base = kept ! index, baseVector = noVector, groupNo = 0, streetGroup = [],
                  normName = finalName\<rparr>)
              (\<lambda>s. Some (Returned (hp s, out s))))))"

definition mergeStreet :: "env \<Rightarrow> store \<Rightarrow> buckets \<Rightarrow> (store \<times> buckets) outcome option" where
  "mergeStreet e h nameMap =
     rangeOver (mergeStreetEntry e) (h, []) (rangeOrder e 5 nameMap)"

section \<open>joinStreets (lines 168-384)\<close>

text \<open>
  Lines 364-381: \<open>keys\<close> starts as \<open>len(mergedStreet)\<close> empty strings, the keys of the map
  are appended, the slice is sorted, and the streets of every key that the map holds are
  appended to the result.
\<close>

definition emitSorted :: "env \<Rightarrow> buckets \<Rightarrow> ref list" where
  "emitSorted e mergedStreet =
     (let keys = replicate (length mergedStreet) [] @ map fst (rangeOrder e 6 mergedStreet)
      in concat (map (\<lambda>k. case map_of mergedStreet k of None \<Rightarrow> [] | Some ss \<Rightarrow> ss)
                   (sortStrings keys)))"

definition proximityStage :: "env \<Rightarrow> store \<Rightarrow> buckets \<Rightarrow> buckets outcome option" where
  "proximityStage e h nameMap = rangeOver (proximityGroups e h) [] (rangeOrder e 1 nameMap)"

definition directionStage :: "env \<Rightarrow> store \<Rightarrow> buckets \<Rightarrow> buckets outcome option" where
  "directionStage e h groupDistanceNameMap =
     rangeOver (directionGroups e h) [] (rangeOrder e 2 groupDistanceNameMap)"

text \<open>
  Everything after the first loop. The result is the store, which holds the merged paths
  and the new names, and the streets in the order of the output.
\<close>

definition joinNormalized :: "env \<Rightarrow> store \<times> buckets \<Rightarrow> (store \<times> ref list) outcome option" where
  "joinNormalized e hn =
     andThen (proximityStage e (fst hn) (snd hn)) (\<lambda>groupDistanceNameMap.
     andThen (directionStage e (fst hn) groupDistanceNameMap) (\<lambda>groupDirectionNameMap.
     andThen (mergeStreetSameDirection e (fst hn) groupDirectionNameMap) (\<lambda>sameDirection.
     andThen (mergeLaneSameDirection e (fst sameDirection) (snd sameDirection)) (\<lambda>lanes.
     andThen (mergeStreet e (fst lanes) (snd lanes)) (\<lambda>merged.
     Some (Returned (fst merged, emitSorted e (snd merged))))))))"

definition joinStreets :: "env \<Rightarrow> store \<Rightarrow> ref list \<Rightarrow> (store \<times> ref list) outcome option" where
  "joinStreets e h streets =
     andThen (Some (normalizeStreets e (h, []) streets)) (joinNormalized e)"

text \<open>What the caller prints of a result: the path and the name of each street, in order.\<close>

definition outputRecords :: "store \<times> ref list \<Rightarrow> (point list \<times> gostring) list" where
  "outputRecords r = map (\<lambda>s. (Path (fst r s), Name (fst r s))) (snd r)"

section \<open>The command (lines 66-164 and 488-524)\<close>

text \<open>
  The flags of the command line, and the configuration built from them (lines 38-42).
\<close>

record cliContext =
  args :: "gostring list"
  formatFlag :: gostring
  delimFlag :: gostring
  extendedFlag :: bool

record config =
  Format :: gostring
  Delim :: gostring
  ExtendedColumns :: bool

text \<open>
  The encoders of go.geo and \<open>strconv\<close> that \<open>Print\<close> calls: the GeoJSON encoder may
  fail, the seven extended columns are computed and formatted by the library.
\<close>

record printer =
  marshalGeoJSON :: "point list \<Rightarrow> gostring option"
  toWKT :: "point list \<Rightarrow> gostring"
  encodePolyline :: "point list \<Rightarrow> gostring"
  extendedColumns :: "point list \<Rightarrow> gostring list"

text \<open>
  The collaborators of the command that read the PBF file and the staging database:
  how the two passes of the PBF parser end, and what \<open>generateStreetsFromWays\<close>
  (lines 427-486) returns from the rows of the database, or that it ends the process.
\<close>

record staging =
  parseFile :: "unit outcome"
  loadStreets :: "(store \<times> ref list) outcome"

text \<open>What the run leaves behind: whether the temporary file exists, and the lines printed.\<close>

record world =
  tempFile :: bool
  stdout :: "gostring list"

fun joinWith :: "gostring \<Rightarrow> gostring list \<Rightarrow> gostring" where
  "joinWith delim [] = []"
| "joinWith delim [x] = x"
| "joinWith delim (x # y # ys) = x @ delim @ joinWith delim (y # ys)"

text \<open>\<open>Print\<close> (lines 66-118): the printed line, or the exit of line 87.\<close>

definition Print :: "printer \<Rightarrow> config \<Rightarrow> street \<Rightarrow> gostring outcome" where
  "Print pr conf s =
     (case (if Format conf = asc ''geojson''
            then (case marshalGeoJSON pr (Path s) of
                    None \<Rightarrow> Exited 1
                  | Some bytes \<Rightarrow> Returned [bytes])
            else if Format conf = asc ''wkt'' then Returned [toWKT pr (Path s)]
            else Returned [encodePolyline pr (Path s)]) of
        Returned cols \<Rightarrow>
          Returned (joinWith (Delim conf)
            (cols @ (if ExtendedColumns conf then extendedColumns pr (Path s) else [])
                  @ [Name s]))
      | Exited c \<Rightarrow> Exited c
      | Panicked \<Rightarrow> Panicked)"

fun printAll :: "printer \<Rightarrow> config \<Rightarrow> store \<Rightarrow> gostring list \<Rightarrow> ref list
    \<Rightarrow> gostring list \<times> unit outcome" where
  "printAll pr conf h printed [] = (printed, Returned ())"
| "printAll pr conf h printed (s # rest) =
     (case Print pr conf (h s) of
        Returned line \<Rightarrow> printAll pr conf h (printed @ [line]) rest
      | Exited c \<Rightarrow> (printed, Exited c)
      | Panicked \<Rightarrow> (printed, Panicked))"

text \<open>\<open>parsePBF\<close> (lines 488-524): the check of the arguments, then the two passes.\<close>

definition parsePBF :: "staging \<Rightarrow> cliContext \<Rightarrow> unit outcome" where
  "parsePBF st c = (if length (args c) \<noteq> 1 then Exited 1 else parseFile st)"

definition makeConfig :: "env \<Rightarrow> cliContext \<Rightarrow> config" where
  "makeConfig e c =
     \<lparr>Format = (if toLower e (formatFlag c) = asc ''geojson'' then asc ''geojson''
                else if toLower e (formatFlag c) = asc ''wkt'' then asc ''wkt''
                else asc ''polyline''),
      Delim = (if delimFlag c \<noteq> [] then delimFlag c else [0]),
      ExtendedColumns = extendedFlag c\<rparr>"

text \<open>
  The body of \<open>StreetMerge\<close> between the two \<open>defer\<close> statements and \<open>return nil\<close>:
  the lines printed, and how the body ended.
\<close>

definition streetMergeBody :: "env \<Rightarrow> printer \<Rightarrow> staging \<Rightarrow> cliContext
    \<Rightarrow> (gostring list \<times> unit outcome) option" where
  "streetMergeBody e pr st c =
     (case parsePBF st c of
        Exited n \<Rightarrow> Some ([], Exited n)
      | Panicked \<Rightarrow> Some ([], Panicked)
      | Returned u \<Rightarrow>
          (case loadStreets st of
             Exited n \<Rightarrow> Some ([], Exited n)
           | Panicked \<Rightarrow> Some ([], Panicked)
           | Returned streets \<Rightarrow>
               (case joinStreets e (fst streets) (snd streets) of
                  None \<Rightarrow> None
                | Some (Exited n) \<Rightarrow> Some ([], Exited n)
                | Some Panicked \<Rightarrow> Some ([], Panicked)
                | Some (Returned joined) \<Rightarrow>
                    Some (printAll pr (makeConfig e c) (fst joined) [] (snd joined)))))"

text \<open>
  \<open>StreetMerge\<close> (lines 121-164). \<open>conn.Open\<close> creates the temporary file. The deferred
  calls (\<open>os.Remove\<close>, \<open>conn.Close\<close>) run when the function returns and when it panics;
  \<open>os.Exit\<close> and \<open>log.Fatal\<close> end the process at once, and deferred calls do not run.
  The result is the exit status of the process (0 after \<open>return nil\<close>, 2 after a panic)
  and the world it leaves; \<open>None\<close> when the run does not end.
\<close>

definition StreetMerge :: "env \<Rightarrow> printer \<Rightarrow> staging \<Rightarrow> cliContext \<Rightarrow> (int \<times> world) option" where
  "StreetMerge e pr st c =
     (case streetMergeBody e pr st c of
        None \<Rightarrow> None
      | Some (printed, Returned u) \<Rightarrow> Some (0, \<lparr>tempFile = False, stdout = printed\<rparr>)
      | Some (printed, Panicked) \<Rightarrow> Some (2, \<lparr>tempFile = False, stdout = printed\<rparr>)
      | Some (printed, Exited n) \<Rightarrow> Some (n, \<lparr>tempFile = True, stdout = printed\<rparr>))"

section \<open>A reference environment\<close>

text \<open>
  One instance of the parameters, used where a property is evaluated on a concrete input:
  exact arithmetic, lowercasing of the ASCII letters, the Euclidean distance of
  \<open>Point.DistanceFrom\<close>, the length of a path as the sum of the lengths of its segments,
  the segment test of \<open>Line.Intersects\<close>, a parser service that answers every request
  with the street name \<open>a\<close>, and maps visited in the order of their lists.
\<close>

definition coordinate :: "f64 \<Rightarrow> real" where
  "coordinate x = (case x of Fin r \<Rightarrow> r | _ \<Rightarrow> 0)"

definition euclidean :: "point \<Rightarrow> point \<Rightarrow> real" where
  "euclidean p q =
     sqrt ((coordinate (fst q) - coordinate (fst p)) * (coordinate (fst q) - coordinate (fst p))
         + (coordinate (snd q) - coordinate (snd p)) * (coordinate (snd q) - coordinate (snd p)))"

definition polylineLength :: "point list \<Rightarrow> real" where
  "polylineLength ps = sum_list (map (\<lambda>l. euclidean (fst l) (snd l)) (segments ps))"

text \<open>
  Two segments \<open>(a1, a2)\<close> and \<open>(b1, b2)\<close>: when they are not parallel they intersect if
  the parameters of the crossing point lie in \<open>[0, 1]\<close> on both; when they lie on one
  line they intersect if their bounding boxes overlap.
\<close>

definition segmentsIntersect :: "point \<times> point \<Rightarrow> point \<times> point \<Rightarrow> bool" where
  "segmentsIntersect l m =
     (let a1x = coordinate (fst (fst l)); a1y = coordinate (snd (fst l));
          a2x = coordinate (fst (snd l)); a2y = coordinate (snd (snd l));
          b1x = coordinate (fst (fst m)); b1y = coordinate (snd (fst m));
          b2x = coordinate (fst (snd m)); b2y = coordinate (snd (snd m));
          den = (b2y - b1y) * (a2x - a1x) - (b2x - b1x) * (a2y - a1y);
          u1 = (b2x - b1x) * (a1y - b1y) - (b2y - b1y) * (a1x - b1x);
          u2 = (a2x - a1x) * (a1y - b1y) - (a2y - a1y) * (a1x - b1x)
      in if den = 0
         then u1 = 0 \<and> u2 = 0
              \<and> max (min a1x a2x) (min b1x b2x) \<le> min (max a1x a2x) (max b1x b2x)
              \<and> max (min a1y a2y) (min b1y b2y) \<le> min (max a1y a2y) (max b1y b2y)
         else 0 \<le> u1 / den \<and> u1 / den \<le> 1 \<and> 0 \<le> u2 / den \<and> u2 / den \<le> 1)"

definition asciiLower :: "gostring \<Rightarrow> gostring" where
  "asciiLower s = map (\<lambda>c. if 65 \<le> c \<and> c \<le> 90 then c + 32 else c) s"

definition streetReply :: "gostring \<Rightarrow> Response" where
  "streetReply name =
     \<lparr>Solutions = [\<lparr>Score = 1, Classifications = [\<lparr>Value = name, Label = asc ''street''\<rparr>]\<rparr>]\<rparr>"

definition refEnv :: env where
  "refEnv =
     \<lparr>rnd = Fin, toLower = asciiLower, distanceFrom = euclidean,
      pathDistance = polylineLength, lineIntersects = segmentsIntersect,
      httpGet = (\<lambda>url. Reply 200 []),
      jsonUnmarshal = (\<lambda>body. (False, streetReply (asc ''a''))),
      rangeOrder = (\<lambda>n m. m)\<rparr>"

definition mkStreet :: "(real \<times> real) list \<Rightarrow> gostring \<Rightarrow> gostring \<Rightarrow> int \<Rightarrow> street" where
  "mkStreet ps name oneway wayid =
     \<lparr>Path = map (\<lambda>p. (Fin (fst p), Fin (snd p))) ps, Name = name, Oneway = oneway,
      WayId = wayid\<rparr>"

text \<open>
  Three services that fail: one that answers with status 500, one whose body does not
  decode (\<open>json.Unmarshal\<close> reports an error and leaves the object empty), and one that
  cannot be reached.
\<close>

definition failingService :: env where
  "failingService = refEnv\<lparr>httpGet := (\<lambda>url. Reply 500 [])\<rparr>"

definition malformedService :: env where
  "malformedService = refEnv\<lparr>jsonUnmarshal := (\<lambda>body. (True, \<lparr>Solutions = []\<rparr>))\<rparr>"

definition unreachableService :: env where
  "unreachableService = refEnv\<lparr>httpGet := (\<lambda>url. GetError)\<rparr>"

text \<open>A street whose chord is degenerate: the first point of its path is the last one.\<close>

definition zeroChord :: "store \<Rightarrow> ref \<Rightarrow> bool" where
  "zeroChord h r = (pathFirst (Path (h r)) = pathLast (Path (h r)))"

text \<open>
  Two one-way streets on one line, the second a closed loop, and a loop state at the
  second of them (\<open>i = 1\<close>) with the first as the base street.
\<close>

definition loopStore :: store where
  "loopStore =
     (\<lambda>r. if r = 0 then mkStreet [(0, 0), (1, 0)] (asc ''a'') (asc ''yes'') 1
          else mkStreet [(5, 0), (6, 0), (5, 0)] (asc ''a'') (asc ''yes'') 2)"

definition atLoop :: loopState where
  "atLoop =
     \<lparr>hp = loopStore, out = [], strs = [0, 1], idx = 1, base = 0,
      baseVector = \<lparr>dX = Fin 1, dY = Fin 0\<rparr>, groupNo = 1, streetGroup = [],
      normName = asc ''a''\<rparr>"

text \<open>
  The measure that shrinks with every pass of a loop body followed by \<open>i++\<close>: the
  length of the list first, then the distance of \<open>i\<close> from its end.
\<close>

definition loopMeasure :: "loopState outcome \<Rightarrow> nat" where
  "loopMeasure r =
     (case r of
        Returned s \<Rightarrow> length (strs s) * (length (strs s) + 2) + nat (int (length (strs s)) - idx s)
      | _ \<Rightarrow> 0)"

definition loopInvariant :: "loopState outcome \<Rightarrow> bool" where
  "loopInvariant r = (case r of Returned s \<Rightarrow> 0 \<le> idx s | _ \<Rightarrow> True)"








text \<open>
  The two tests of lines 182-192 on the folded name, a street whose name they skip, and
  the streets that a map of buckets holds.
\<close>

definition noiseName :: "gostring \<Rightarrow> bool" where
  "noiseName folded =
     (hasPrefix folded (asc ''kiet'') \<or> hasPrefix folded (asc ''hem'')
      \<or> hasPrefix folded (asc ''cau'') \<or> hasPrefix folded (asc ''vong xuyen'')
      \<or> folded = asc ''ngo chu huy man'')"

definition dropped :: "env \<Rightarrow> store \<Rightarrow> ref \<Rightarrow> bool" where
  "dropped e h p =
     (case removeAccent (toLower e (Name (h p))) of
        None \<Rightarrow> False
      | Some folded \<Rightarrow> noiseName folded)"

definition refsOf :: "buckets \<Rightarrow> ref set" where
  "refsOf m = (\<Union>entry \<in> set m. set (snd entry))"

text \<open>An alley and a street, for the normalisation of the names.\<close>

definition noisyStore :: store where
  "noisyStore =
     (\<lambda>r. if r = 0 then mkStreet [(0, 0), (1, 0)] (asc ''Hem 5'') [] 1
          else mkStreet [(0, 1), (1, 1)] (asc ''Le Loi'') [] 2)"

text \<open>
  Two streets of one name, far from each other, and the reference environment with the
  entries of the map of \<open>mergeStreet\<close> (line 1725) visited in the opposite order.
\<close>

definition farStore :: store where
  "farStore =
     (\<lambda>r. if r = 0 then mkStreet [(0, 0), (1, 0)] (asc ''a'') [] 1
          else mkStreet [(10, 0), (11, 0)] (asc ''a'') [] 2)"

definition reversedOrder :: env where
  "reversedOrder = refEnv\<lparr>rangeOrder := (\<lambda>n m. if n = 5 then rev m else m)\<rparr>"

section \<open>Properties\<close>

subsection \<open>Arithmetic of a chord of length zero\<close>

lemma fsub_self: "r 0 = Fin 0 \<Longrightarrow> fsub r x x = Fin 0 \<or> fsub r x x = NaN"
  by (cases x) auto

lemma fmul_NaN_right: "fmul r a NaN = NaN"
  by (cases a) auto

lemma fmul_zero_right: "r 0 = Fin 0 \<Longrightarrow> fmul r a (Fin 0) = Fin 0 \<or> fmul r a (Fin 0) = NaN"
  by (cases a) auto

lemma fmul_zero_left: "r 0 = Fin 0 \<Longrightarrow> fmul r (Fin 0) a = Fin 0 \<or> fmul r (Fin 0) a = NaN"
  by (cases a) auto

lemma fadd_zero_or_NaN:
  "r 0 = Fin 0 \<Longrightarrow> x = Fin 0 \<or> x = NaN \<Longrightarrow> y = Fin 0 \<or> y = NaN \<Longrightarrow>
   fadd r x y = Fin 0 \<or> fadd r x y = NaN"
  by auto

lemma fdiv_zero_or_NaN:
  "x = Fin 0 \<or> x = NaN \<Longrightarrow> y = Fin 0 \<or> y = NaN \<Longrightarrow> fdiv r x y = NaN"
  by auto

lemma magnitude_zero_or_NaN:
  assumes r0: "rnd e 0 = Fin 0"
    and bx: "dX b = Fin 0 \<or> dX b = NaN" and by': "dY b = Fin 0 \<or> dY b = NaN"
  shows "fsqrt (rnd e) (fadd (rnd e) (fmul (rnd e) (dX b) (dX b)) (fmul (rnd e) (dY b) (dY b))) = Fin 0
       \<or> fsqrt (rnd e) (fadd (rnd e) (fmul (rnd e) (dX b) (dX b)) (fmul (rnd e) (dY b) (dY b))) = NaN"
proof -
  have q1: "fmul (rnd e) (dX b) (dX b) = Fin 0 \<or> fmul (rnd e) (dX b) (dX b) = NaN"
    using bx r0 by auto
  have q2: "fmul (rnd e) (dY b) (dY b) = Fin 0 \<or> fmul (rnd e) (dY b) (dY b) = NaN"
    using by' r0 by auto
  have "fadd (rnd e) (fmul (rnd e) (dX b) (dX b)) (fmul (rnd e) (dY b) (dY b)) = Fin 0 \<or>
      fadd (rnd e) (fmul (rnd e) (dX b) (dX b)) (fmul (rnd e) (dY b) (dY b)) = NaN"
    using fadd_zero_or_NaN [of "rnd e", OF r0 q1 q2] .
  then show ?thesis
    using r0 by auto
qed

lemma cos_right_zero:
  assumes r0: "rnd e 0 = Fin 0"
    and bx: "dX b = Fin 0 \<or> dX b = NaN" and by': "dY b = Fin 0 \<or> dY b = NaN"
  shows "cosBetween2Vectors e a b = NaN"
proof -
  have p1: "fmul (rnd e) (dX a) (dX b) = Fin 0 \<or> fmul (rnd e) (dX a) (dX b) = NaN"
    using bx fmul_zero_right [of "rnd e" "dX a"] r0 by (auto simp: fmul_NaN_right)
  have p2: "fmul (rnd e) (dY a) (dY b) = Fin 0 \<or> fmul (rnd e) (dY a) (dY b) = NaN"
    using by' fmul_zero_right [of "rnd e" "dY a"] r0 by (auto simp: fmul_NaN_right)
  have dividend: "fadd (rnd e) (fmul (rnd e) (dX a) (dX b)) (fmul (rnd e) (dY a) (dY b)) = Fin 0 \<or>
      fadd (rnd e) (fmul (rnd e) (dX a) (dX b)) (fmul (rnd e) (dY a) (dY b)) = NaN"
    using fadd_zero_or_NaN [of "rnd e", OF r0 p1 p2] .
  have divisor: "fmul (rnd e) m
        (fsqrt (rnd e) (fadd (rnd e) (fmul (rnd e) (dX b) (dX b)) (fmul (rnd e) (dY b) (dY b)))) = Fin 0
      \<or> fmul (rnd e) m
        (fsqrt (rnd e) (fadd (rnd e) (fmul (rnd e) (dX b) (dX b)) (fmul (rnd e) (dY b) (dY b)))) = NaN"
    for m
    using magnitude_zero_or_NaN [OF r0 bx by'] fmul_zero_right [of "rnd e" m] r0
    by (auto simp: fmul_NaN_right)
  show ?thesis
    unfolding cosBetween2Vectors_def Let_def
    by (rule fdiv_zero_or_NaN [OF dividend divisor])
qed

lemma cos_left_zero:
  assumes r0: "rnd e 0 = Fin 0"
    and bx: "dX b = Fin 0 \<or> dX b = NaN" and by': "dY b = Fin 0 \<or> dY b = NaN"
  shows "cosBetween2Vectors e b a = NaN"
proof -
  have p1: "fmul (rnd e) (dX b) (dX a) = Fin 0 \<or> fmul (rnd e) (dX b) (dX a) = NaN"
    using bx fmul_zero_left [of "rnd e" "dX a"] r0 by auto
  have p2: "fmul (rnd e) (dY b) (dY a) = Fin 0 \<or> fmul (rnd e) (dY b) (dY a) = NaN"
    using by' fmul_zero_left [of "rnd e" "dY a"] r0 by auto
  have dividend: "fadd (rnd e) (fmul (rnd e) (dX b) (dX a)) (fmul (rnd e) (dY b) (dY a)) = Fin 0 \<or>
      fadd (rnd e) (fmul (rnd e) (dX b) (dX a)) (fmul (rnd e) (dY b) (dY a)) = NaN"
    using fadd_zero_or_NaN [of "rnd e", OF r0 p1 p2] .
  have divisor: "fmul (rnd e)
        (fsqrt (rnd e) (fadd (rnd e) (fmul (rnd e) (dX b) (dX b)) (fmul (rnd e) (dY b) (dY b)))) m = Fin 0
      \<or> fmul (rnd e)
        (fsqrt (rnd e) (fadd (rnd e) (fmul (rnd e) (dX b) (dX b)) (fmul (rnd e) (dY b) (dY b)))) m = NaN"
    for m
    using magnitude_zero_or_NaN [OF r0 bx by'] fmul_zero_left [of "rnd e" m] r0
    by auto
  show ?thesis
    unfolding cosBetween2Vectors_def Let_def
    by (rule fdiv_zero_or_NaN [OF dividend divisor])
qed

lemma zero_chord_components:
  assumes "rnd e 0 = Fin 0"
  shows "(dX (createPathVector e p p) = Fin 0 \<or> dX (createPathVector e p p) = NaN)
       \<and> (dY (createPathVector e p p) = Fin 0 \<or> dY (createPathVector e p p) = NaN)"
  using fsub_self [of "rnd e" "fst p"] fsub_self [of "rnd e" "snd p"] assms
  by (simp add: createPathVector_def)

lemma zero_chord_not_same:
  assumes r0: "rnd e 0 = Fin 0"
  shows "\<not> isTwoPathsSameDirection e v (createPathVector e p p)"
    and "\<not> isTwoPathsSameDirection e (createPathVector e p p) v"
proof -
  have c: "dX (createPathVector e p p) = Fin 0 \<or> dX (createPathVector e p p) = NaN"
      "dY (createPathVector e p p) = Fin 0 \<or> dY (createPathVector e p p) = NaN"
    using zero_chord_components [OF r0, of p] by auto
  show "\<not> isTwoPathsSameDirection e v (createPathVector e p p)"
    by (simp add: isTwoPathsSameDirection_def cos_right_zero [OF r0 c])
  show "\<not> isTwoPathsSameDirection e (createPathVector e p p) v"
    by (simp add: isTwoPathsSameDirection_def cos_left_zero [OF r0 c])
qed

lemma zero_chord_eq:
  assumes "rnd e 0 = Fin 0" and "a = b"
  shows "isTwoPathsSameDirection e v (createPathVector e a b) = False"
    and "isTwoPathsSameDirection e (createPathVector e a b) v = False"
  using zero_chord_not_same [OF assms(1)] assms(2) by simp_all

lemma directionBody_zero_chord:
  assumes r0: "rnd e 0 = Fin 0"
    and i: "idx s \<noteq> 0" and n: "1 < length (strs s)"
    and o: "Oneway (hp s (strs s ! nat (idx s))) = asc ''yes''"
    and z: "zeroChord (hp s) (strs s ! nat (idx s)) \<or> baseVector s = createPathVector e q q"
  shows "directionBody e g s =
     (if Path (hp s (strs s ! nat (idx s))) = [] then Panicked else Returned (dropHeadAtEnd s))"
proof -
  have "\<not> isTwoPathsSameDirection e (baseVector s)
          (createPathVector e (pathFirst (Path (hp s (strs s ! nat (idx s)))))
             (pathLast (Path (hp s (strs s ! nat (idx s))))))"
    using z by (auto simp: zeroChord_def zero_chord_eq [OF r0])
  then show ?thesis
    using i n o by (simp add: directionBody_def Let_def)
qed

lemma hp_sameDirectionTail: "hp (sameDirectionTail n s) = hp s"
  by (simp add: sameDirectionTail_def fileBaseDropHead_def)

lemma hp_laneTail: "hp (laneTail s) = hp s"
  by (simp add: laneTail_def)

lemma hp_refuse: "hp (refuse s) = hp s"
  by (simp add: refuse_def fileBaseAtEnd_def)

lemma mergeSameDirectionBody_zero_chord:
  assumes r0: "rnd e 0 = Fin 0"
    and o: "Oneway (hp s (strs s ! nat (idx s))) = asc ''yes''"
    and z: "zeroChord (hp s) (base s) \<or> zeroChord (hp s) (strs s ! nat (idx s))"
    and r: "mergeSameDirectionBody e n s = Returned s'"
  shows "hp s' = hp s"
proof -
  have ns: "\<not> isTwoPathsSameDirection e
          (createPathVector e (pathFirst (Path (hp s (base s)))) (pathLast (Path (hp s (base s)))))
          (createPathVector e (pathFirst (Path (hp s (strs s ! nat (idx s)))))
             (pathLast (Path (hp s (strs s ! nat (idx s))))))"
    using z by (auto simp: zeroChord_def zero_chord_eq [OF r0])
  show ?thesis
    using r o ns
    by (auto simp: mergeSameDirectionBody_def Let_def hp_sameDirectionTail fileBaseDropHead_def
        split: if_splits)
qed

lemma mergeLaneBody_zero_chord:
  assumes r0: "rnd e 0 = Fin 0"
    and o: "Oneway (hp s (strs s ! nat (idx s))) = asc ''yes''"
    and z: "zeroChord (hp s) (base s) \<or> zeroChord (hp s) (strs s ! nat (idx s))"
    and r: "mergeLaneBody e s = Returned s'"
  shows "hp s' = hp s"
proof -
  have ns: "\<not> isTwoPathsSameDirection e
          (createPathVector e (pathFirst (Path (hp s (base s)))) (pathLast (Path (hp s (base s)))))
          (createPathVector e (pathFirst (Path (hp s (strs s ! nat (idx s)))))
             (pathLast (Path (hp s (strs s ! nat (idx s))))))"
    using z by (auto simp: zeroChord_def zero_chord_eq [OF r0])
  show ?thesis
    using r o ns
    by (auto simp: mergeLaneBody_def Let_def hp_laneTail hp_refuse split: if_splits)
qed

lemma euclidean_horizontal: "euclidean (Fin a, Fin b) (Fin c, Fin b) = \<bar>c - a\<bar>"
  by (simp add: euclidean_def coordinate_def)

lemmas loop_eval = atLoop_def loopStore_def mkStreet_def refEnv_def asc_def Let_def
  distPanics_def anyEmptyPath_def removeStreet_def pathFirst_def pathLast_def
  shortestDistanceToOtherStreets_def shortestDistanceToOtherSameDirectionStreets_def
  getShortestDistance_def shortestDistanceWhenSameDirection_def euclidean_horizontal
  intersectsPath_def segments_def segmentsIntersect_def coordinate_def
  isTwoPathsSameDirection_def cosBetween2Vectors_def createPathVector_def
  distanceTolerance_def

lemma atLoop_sameDirection:
  "mergeSameDirectionBody refEnv (asc ''a'') atLoop =
     Returned (atLoop\<lparr>out := [(asc ''a'', [1, 0])], strs := [], idx := - 1\<rparr>)"
  by (simp add: mergeSameDirectionBody_def loop_eval distanceRangeSameDirection_def
      sameDirectionTail_def fileBaseDropHead_def)

lemma atLoop_lane:
  "mergeLaneBody refEnv atLoop =
     Returned (atLoop\<lparr>out := [(asc ''a'', [0])], strs := [0], idx := 0\<rparr>)"
  by (simp add: mergeLaneBody_def loop_eval distanceRangeLane_def laneTail_def refuse_def
      fileBaseAtEnd_def)

text \<open>
  C10. For a fragment whose chord is degenerate (its first point is its last point),
  \<open>cosBetween2Vectors\<close> against every vector is NaN, on either side, because the
  magnitude of the chord is zero (or NaN, when a coordinate is not finite); so
  \<open>isTwoPathsSameDirection\<close> is false against every vector. Hence, at the sites that the
  predicate guards: in the direction loop a one-way candidate is not admitted to the
  current direction group (line 323) when its chord, or the chord of the base street, is
  degenerate, the step only moves on; and a step of \<open>mergeStreetSameDirection\<close> or of
  \<open>mergeLaneSameDirection\<close> on a one-way candidate changes no path (lines 1188, 1206, 1490,
  1510) when the chord of the candidate or of the base street is degenerate. A degenerate
  street can still open a direction group of its own at \<open>i = 0\<close>, where no test is made.
  The one assumption on the rounding is that an exact result of zero is rounded to zero.
\<close>

theorem degenerate_chord_never_same_direction:
  assumes "rnd e 0 = Fin 0"
  shows "cosBetween2Vectors e v (createPathVector e p p) = NaN
       \<and> cosBetween2Vectors e (createPathVector e p p) v = NaN
       \<and> \<not> isTwoPathsSameDirection e v (createPathVector e p p)
       \<and> \<not> isTwoPathsSameDirection e (createPathVector e p p) v
       \<and> (idx s \<noteq> 0 \<and> 1 < length (strs s)
            \<and> Oneway (hp s (strs s ! nat (idx s))) = asc ''yes''
            \<and> (zeroChord (hp s) (strs s ! nat (idx s)) \<or> baseVector s = createPathVector e q q)
          \<longrightarrow> directionBody e g s =
                (if Path (hp s (strs s ! nat (idx s))) = [] then Panicked
                 else Returned (dropHeadAtEnd s)))
       \<and> (Oneway (hp s (strs s ! nat (idx s))) = asc ''yes''
            \<and> (zeroChord (hp s) (base s) \<or> zeroChord (hp s) (strs s ! nat (idx s)))
          \<longrightarrow> (\<forall>s'. mergeSameDirectionBody e n s = Returned s' \<longrightarrow> hp s' = hp s)
              \<and> (\<forall>s'. mergeLaneBody e s = Returned s' \<longrightarrow> hp s' = hp s))"
proof -
  have c: "dX (createPathVector e p p) = Fin 0 \<or> dX (createPathVector e p p) = NaN"
      "dY (createPathVector e p p) = Fin 0 \<or> dY (createPathVector e p p) = NaN"
    using zero_chord_components [OF assms, of p] by auto
  have r: "cosBetween2Vectors e v (createPathVector e p p) = NaN"
    by (rule cos_right_zero [OF assms c])
  have l: "cosBetween2Vectors e (createPathVector e p p) v = NaN"
    by (rule cos_left_zero [OF assms c])
  have small: "cosBetween2Vectors e v (createPathVector e p p) = NaN
       \<and> cosBetween2Vectors e (createPathVector e p p) v = NaN
       \<and> \<not> isTwoPathsSameDirection e v (createPathVector e p p)
       \<and> \<not> isTwoPathsSameDirection e (createPathVector e p p) v"
    by (simp add: isTwoPathsSameDirection_def r l)
  have dir: "directionBody e g s =
                (if Path (hp s (strs s ! nat (idx s))) = [] then Panicked
                 else Returned (dropHeadAtEnd s))"
    if "idx s \<noteq> 0" "1 < length (strs s)" "Oneway (hp s (strs s ! nat (idx s))) = asc ''yes''"
      "zeroChord (hp s) (strs s ! nat (idx s)) \<or> baseVector s = createPathVector e q q"
    using directionBody_zero_chord [OF assms that] .
  have same: "hp s' = hp s"
    if "Oneway (hp s (strs s ! nat (idx s))) = asc ''yes''"
      "zeroChord (hp s) (base s) \<or> zeroChord (hp s) (strs s ! nat (idx s))"
      "mergeSameDirectionBody e n s = Returned s'" for s'
    using mergeSameDirectionBody_zero_chord [OF assms that] .
  have lane: "hp s' = hp s"
    if "Oneway (hp s (strs s ! nat (idx s))) = asc ''yes''"
      "zeroChord (hp s) (base s) \<or> zeroChord (hp s) (strs s ! nat (idx s))"
      "mergeLaneBody e s = Returned s'" for s'
    using mergeLaneBody_zero_chord [OF assms that] .
  show ?thesis
    using small dir same lane by blast
qed

theorem degenerate_chord_never_same_direction_witness:
  "rnd refEnv 0 = Fin 0
   \<and> cosBetween2Vectors refEnv \<lparr>dX = Fin 1, dY = Fin 2\<rparr> (createPathVector refEnv (Fin 3, Fin 4) (Fin 3, Fin 4)) = NaN
   \<and> cosBetween2Vectors refEnv (createPathVector refEnv (Fin 3, Fin 4) (Fin 3, Fin 4)) \<lparr>dX = Fin 1, dY = Fin 2\<rparr> = NaN
   \<and> \<not> isTwoPathsSameDirection refEnv \<lparr>dX = Fin 1, dY = Fin 2\<rparr>
         (createPathVector refEnv (Fin 3, Fin 4) (Fin 3, Fin 4))
   \<and> \<not> isTwoPathsSameDirection refEnv (createPathVector refEnv (Fin 3, Fin 4) (Fin 3, Fin 4))
         \<lparr>dX = Fin 1, dY = Fin 2\<rparr>
   \<and> zeroChord (hp atLoop) (strs atLoop ! nat (idx atLoop))
   \<and> Oneway (hp atLoop (strs atLoop ! nat (idx atLoop))) = asc ''yes''
   \<and> directionBody refEnv (asc ''a'') atLoop = Returned (dropHeadAtEnd atLoop)
   \<and> (\<exists>s'. mergeSameDirectionBody refEnv (asc ''a'') atLoop = Returned s' \<and> hp s' = hp atLoop)
   \<and> (\<exists>s'. mergeLaneBody refEnv atLoop = Returned s' \<and> hp s' = hp atLoop)"
proof -
  have h: "rnd refEnv 0 = Fin 0"
    by (simp add: refEnv_def)
  have z: "zeroChord (hp atLoop) (strs atLoop ! nat (idx atLoop))"
    by (simp add: zeroChord_def atLoop_def loopStore_def mkStreet_def pathFirst_def pathLast_def)
  have o: "Oneway (hp atLoop (strs atLoop ! nat (idx atLoop))) = asc ''yes''"
    by (simp add: atLoop_def loopStore_def mkStreet_def)
  have i: "idx atLoop \<noteq> 0 \<and> 1 < length (strs atLoop)
      \<and> Path (hp atLoop (strs atLoop ! nat (idx atLoop))) \<noteq> []"
    by (simp add: atLoop_def loopStore_def mkStreet_def)
  note t = degenerate_chord_never_same_direction [OF h,
      of "\<lparr>dX = Fin 1, dY = Fin 2\<rparr>" "(Fin 3, Fin 4)" atLoop _ "asc ''a''" "asc ''a''"]
  have d: "directionBody refEnv (asc ''a'') atLoop = Returned (dropHeadAtEnd atLoop)"
    using t z o i by simp
  have s: "\<exists>s'. mergeSameDirectionBody refEnv (asc ''a'') atLoop = Returned s' \<and> hp s' = hp atLoop"
    using t z o atLoop_sameDirection by blast
  have m: "\<exists>s'. mergeLaneBody refEnv atLoop = Returned s' \<and> hp s' = hp atLoop"
    using t z o atLoop_lane by blast
  show ?thesis
    using h t z o d s m by blast
qed

subsection \<open>Termination of the proximity loop\<close>

lemma length_removeFrom:
  "length (removeFrom index i xs) =
     (if i \<le> index \<and> index < i + int (length xs) then length xs - 1 else length xs)"
proof (induction xs arbitrary: i)
  case Nil
  show ?case by simp
next
  case (Cons x xs)
  have ih: "length (removeFrom index (i + 1) xs) =
     (if i + 1 \<le> index \<and> index < i + 1 + int (length xs) then length xs - 1 else length xs)"
    by (rule Cons.IH)
  show ?case
  proof (cases "index = i")
    case True
    then show ?thesis
      using ih by simp
  next
    case False
    then show ?thesis
      using ih by (cases xs) auto
  qed
qed


lemma length_removeStreet:
  "length (removeStreet xs index) =
     (if 0 \<le> index \<and> index < int (length xs) then length xs - 1 else length xs)"
  by (simp add: removeStreet_def length_removeFrom)

lemma proximityBody_step:
  assumes i0: "0 \<le> idx s" and il: "idx s < int (length (strs s))"
    and r: "proximityBody e s = Returned s'"
  shows "(strs s' = strs s \<and> idx s' = idx s
          \<and> (idx s = 0 \<or> idx s < int (length (strs s)) - 1))
       \<or> (length (strs s') = length (strs s) - 1 \<and> - 1 \<le> idx s' \<and> idx s \<noteq> 0)"
proof (cases "idx s = 0")
  case True
  then show ?thesis
    using r by (auto simp: proximityBody_def Let_def)
next
  case False
  have l1: "length (removeStreet (strs s) (idx s)) = length (strs s) - 1"
    using i0 il by (simp add: length_removeStreet)
  have l2: "length (removeStreet (strs s) 0) = length (strs s) - 1"
    using i0 il by (simp add: length_removeStreet)
  show ?thesis
  proof (cases "distPanics (hp s) (strs s ! nat (idx s)) (streetGroup s)")
    case True
    then show ?thesis
      using r False by (simp add: proximityBody_def Let_def)
  next
    case np: False
    show ?thesis
    proof (cases "shortestDistanceToOtherStreets e (hp s) (strs s ! nat (idx s)) (streetGroup s)
                   < distanceGroup")
      case True
      then have "s' = s\<lparr>streetGroup := streetGroup s @ [strs s ! nat (idx s)],
                          out := mapAppend (out s) (normName s) (strs s ! nat (idx s)),
                          strs := removeStreet (strs s) (idx s), idx := 0\<rparr>"
        using r False np by (simp add: proximityBody_def Let_def)
      then show ?thesis
        using l1 False by simp
    next
      case far: False
      show ?thesis
      proof (cases "idx s = int (length (strs s)) - 1")
        case True
        then have "s' = s\<lparr>strs := removeStreet (strs s) 0, idx := - 1\<rparr>"
          using r False np far by (simp add: proximityBody_def Let_def)
        then show ?thesis
          using l2 \<open>idx s \<noteq> 0\<close> by simp
      next
        case False
        then have "s' = s"
          using r \<open>idx s \<noteq> 0\<close> np far by (simp add: proximityBody_def Let_def)
        then show ?thesis
          using False il by simp
      qed
    qed
  qed
qed

lemma shrink_measure:
  fixes n n' :: nat and i i' :: int
  assumes "0 \<le> i" "i < int n" "n' = n - 1" "- 1 \<le> i'"
  shows "n' * (n' + 2) + nat (int n' - (i' + 1)) < n * (n + 2) + nat (int n - i)"
proof -
  obtain m where n: "n = Suc m"
    using assms(1,2) by (cases n) auto
  have a: "nat (int n' - (i' + 1)) \<le> m"
    using assms(3,4) n by auto
  have b: "1 \<le> nat (int n - i)"
    using assms(2) by auto
  have "m * (m + 2) + m < Suc m * (Suc m + 2)"
    by simp
  then show ?thesis
    using a b assms(3) n by simp
qed

lemma goFor_terminates:
  assumes step: "\<And>s s'. 0 \<le> idx s \<Longrightarrow> idx s < int (length (strs s)) \<Longrightarrow> body s = Returned s' \<Longrightarrow>
      (strs s' = strs s \<and> idx s' = idx s)
       \<or> (length (strs s') = length (strs s) - 1 \<and> - 1 \<le> idx s')"
  shows "\<exists>r. goFor body s0 = Some r"
proof -
  let ?b = "\<lambda>r. case r of Returned s \<Rightarrow> idx s < int (length (strs s)) | _ \<Rightarrow> False"
  let ?c = "\<lambda>r. case r of
               Returned s \<Rightarrow>
                 (case body s of Returned s' \<Rightarrow> Returned (s'\<lparr>idx := idx s' + 1\<rparr>) | x \<Rightarrow> x)
             | x \<Rightarrow> x"
  have dec: "loopInvariant (?c r) \<and> loopMeasure (?c r) < loopMeasure r"
    if "loopInvariant r" "?b r" for r
  proof (cases r)
    case (Returned s)
    then have i: "0 \<le> idx s" "idx s < int (length (strs s))"
      using that by (auto simp: loopInvariant_def)
    show ?thesis
    proof (cases "body s")
      case (Returned s')
      from step [OF i Returned] show ?thesis
      proof
        assume "strs s' = strs s \<and> idx s' = idx s"
        then show ?thesis
          using i Returned \<open>r = Returned s\<close>
          by (auto simp: loopInvariant_def loopMeasure_def)
      next
        assume a: "length (strs s') = length (strs s) - 1 \<and> - 1 \<le> idx s'"
        have "length (strs s') * (length (strs s') + 2) + nat (int (length (strs s')) - (idx s' + 1))
            < length (strs s) * (length (strs s) + 2) + nat (int (length (strs s)) - idx s)"
          using shrink_measure [OF i] a by blast
        then show ?thesis
          using a Returned \<open>r = Returned s\<close>
          by (simp add: loopInvariant_def loopMeasure_def)
      qed
    next
      case (Exited c)
      then show ?thesis
        using i \<open>r = Returned s\<close> by (simp add: loopInvariant_def loopMeasure_def)
    next
      case Panicked
      then show ?thesis
        using i \<open>r = Returned s\<close> by (simp add: loopInvariant_def loopMeasure_def)
    qed
  qed (use that in auto)
  have "\<exists>t. while_option ?b ?c (Returned (s0\<lparr>idx := 0\<rparr>)) = Some t"
  proof (rule measure_while_option_Some [where f = loopMeasure and P = loopInvariant])
    show "loopInvariant (Returned (s0\<lparr>idx := 0\<rparr>))"
      by (simp add: loopInvariant_def)
  next
    fix r
    assume "loopInvariant r" "?b r"
    then show "loopInvariant (?c r) \<and> loopMeasure (?c r) < loopMeasure r"
      by (rule dec)
  qed
  then show ?thesis
    by (auto simp: goFor_def)
qed

lemma proximityGroups_terminates: "\<exists>r. proximityGroups e h m entry = Some r"
proof -
  have "\<exists>r. goFor (proximityBody e) s0 = Some r" for s0
  proof (rule goFor_terminates)
    fix s s'
    assume "0 \<le> idx s" "idx s < int (length (strs s))" "proximityBody e s = Returned s'"
    then show "(strs s' = strs s \<and> idx s' = idx s)
       \<or> (length (strs s') = length (strs s) - 1 \<and> - 1 \<le> idx s')"
      using proximityBody_step [of s e s'] by blast
  qed
  then obtain r where "goFor (proximityBody e)
           \<lparr>hp = h, out = m, strs = sortStreetsDescLength e h (snd entry), idx = 0, base = 0,
            baseVector = noVector, groupNo = 1, streetGroup = [],
            normName = toLower e (Name (h (sortStreetsDescLength e h (snd entry) ! 0)))\<rparr> = Some r"
    by blast
  then show ?thesis
    by (cases r) (simp_all add: proximityGroups_def Let_def andThen_def)
qed

lemma rangeOver_terminates:
  assumes "\<And>a entry. \<exists>r. body a entry = Some r"
  shows "\<exists>r. rangeOver body a entries = Some r"
proof (induction entries arbitrary: a)
  case Nil
  show ?case by simp
next
  case (Cons entry entries)
  obtain r where r: "body a entry = Some r"
    using assms by blast
  show ?case
    using Cons.IH by (cases r) (simp_all add: r)
qed

lemma proximityStage_terminates: "\<exists>r. proximityStage e h nameMap = Some r"
  unfolding proximityStage_def
  by (rule rangeOver_terminates) (rule proximityGroups_terminates)

lemma atLoop_proximity:
  "proximityBody refEnv atLoop =
     Returned (atLoop\<lparr>streetGroup := [1], out := [(asc ''a'', [1])], strs := [0], idx := 0\<rparr>)"
  by (simp add: proximityBody_def atLoop_def distPanics_def shortestDistanceToOtherStreets_def
      distanceGroup_def removeStreet_def Let_def)

text \<open>
  C9. The proximity loop of \<open>joinStreets\<close> terminates from every state, and so does
  the whole proximity stage for every map of names. A step at the head (\<open>i = 0\<close>) seeds a
  group and leaves the list as it is; every other step either admits the current street or,
  at the end of the list, removes the head, and both shorten the list by one; or, before the
  end of the list, it moves on. So a pass that reaches the end of the list has shortened it.
\<close>

theorem proximity_loop_terminates:
  "(\<exists>r. goFor (proximityBody e) s0 = Some r)
   \<and> (\<exists>r. proximityStage e h nameMap = Some r)
   \<and> (0 \<le> idx s \<and> idx s < int (length (strs s)) \<and> proximityBody e s = Returned s' \<longrightarrow>
        (strs s' = strs s \<and> idx s' = idx s
          \<and> (idx s = 0 \<or> idx s < int (length (strs s)) - 1))
        \<or> (length (strs s') = length (strs s) - 1 \<and> - 1 \<le> idx s' \<and> idx s \<noteq> 0))"
proof -
  have "\<exists>r. goFor (proximityBody e) s0 = Some r"
  proof (rule goFor_terminates)
    fix s s'
    assume "0 \<le> idx s" "idx s < int (length (strs s))" "proximityBody e s = Returned s'"
    then show "(strs s' = strs s \<and> idx s' = idx s)
       \<or> (length (strs s') = length (strs s) - 1 \<and> - 1 \<le> idx s')"
      using proximityBody_step [of s e s'] by blast
  qed
  then show ?thesis
    using proximityStage_terminates [of e h nameMap] proximityBody_step [of s e s'] by blast
qed

theorem proximity_loop_terminates_witness:
  "(\<exists>r. goFor (proximityBody refEnv) atLoop = Some r)
   \<and> (\<exists>r. proximityStage refEnv loopStore [(asc ''a'', [0, 1])] = Some r)
   \<and> (\<exists>s'. proximityBody refEnv atLoop = Returned s'
          \<and> length (strs s') = length (strs atLoop) - 1)"
proof -
  have i: "0 \<le> idx atLoop \<and> idx atLoop < int (length (strs atLoop)) \<and> idx atLoop \<noteq> 0
      \<and> \<not> idx atLoop < int (length (strs atLoop)) - 1"
    by (simp add: atLoop_def)
  show ?thesis
    using proximity_loop_terminates [of refEnv atLoop loopStore "[(asc ''a'', [0, 1])]" atLoop]
      i atLoop_proximity
    by blast
qed

subsection \<open>The parser service\<close>

lemma labels_differ: "asc ''housenumber'' \<noteq> asc ''street''"
  by (simp add: asc_def)

lemma classifyLoop_result:
  "classifyLoop streetName cs =
     (if (\<exists>c \<in> set cs. Label c = asc ''housenumber'') then []
      else (case filter (\<lambda>c. Label c = asc ''street'') cs of
              [] \<Rightarrow> streetName
            | x # xs \<Rightarrow> Value (last (x # xs))))"
proof (induction cs arbitrary: streetName)
  case Nil
  show ?case by simp
next
  case (Cons c cs)
  show ?case
    using labels_differ
    by (simp add: Cons.IH split: list.split)
qed

lemma pickStreetName_result:
  "pickStreetName r =
     (case Solutions r of
        [] \<Rightarrow> []
      | first # others \<Rightarrow>
          if (\<exists>c \<in> set (Classifications first). Label c = asc ''housenumber'') then []
          else (case filter (\<lambda>c. Label c = asc ''street'') (Classifications first) of
                  [] \<Rightarrow> []
                | x # xs \<Rightarrow> Value (last (x # xs))))"
  by (cases "Solutions r"; cases "Classifications (hd (Solutions r))")
     (simp_all add: pickStreetName_def classifyLoop_result del: classifyLoop.simps)

text \<open>
  C7. When the service replies, \<open>streetNameParser\<close> returns a value that depends on the
  classifications of the first solution only: the empty string when there is no solution
  or when one of them is labelled \<open>housenumber\<close>; otherwise the value of the classification
  labelled \<open>street\<close> (of the last one, should there be several), and the empty string when
  none is.
\<close>

theorem streetNameParser_classification:
  assumes "httpGet e (parserURL searchText) = Reply status body"
  shows "streetNameParser e searchText = Returned
     (case Solutions (snd (jsonUnmarshal e body)) of
        [] \<Rightarrow> []
      | first # others \<Rightarrow>
          if (\<exists>c \<in> set (Classifications first). Label c = asc ''housenumber'') then []
          else (case filter (\<lambda>c. Label c = asc ''street'') (Classifications first) of
                  [] \<Rightarrow> []
                | x # xs \<Rightarrow> Value (last (x # xs))))"
  using assms by (simp add: streetNameParser_def pickStreetName_result)

theorem streetNameParser_classification_witness:
  "httpGet refEnv (parserURL (asc ''duong x'')) = Reply 200 []
   \<and> streetNameParser refEnv (asc ''duong x'') = Returned (asc ''a'')"
proof -
  have h: "httpGet refEnv (parserURL (asc ''duong x'')) = Reply 200 []"
    by (simp add: refEnv_def)
  show ?thesis
    using h streetNameParser_classification [OF h]
    by (simp add: refEnv_def streetReply_def asc_def)
qed

text \<open>
  C4 as stated fails: a reply with status 500 is parsed like any other and its street name
  is returned, and a body that does not decode yields the empty string; in neither case
  does the process exit.
\<close>

theorem parser_failure_not_fatal_counterexample:
  "streetNameParser failingService (asc ''duong x'') = Returned (asc ''a'')
   \<and> streetNameParser malformedService (asc ''duong x'') = Returned []"
  by (simp add: streetNameParser_def failingService_def malformedService_def refEnv_def
      pickStreetName_def streetReply_def asc_def)

text \<open>
  C4 (amended). \<open>streetNameParser\<close> ends the process, with status 1, exactly when
  \<open>http.Get\<close> returns an error or the body cannot be read; it never panics; and for every
  reply whose body was read, whatever its status code and whether or not decoding reported
  an error, it returns the name picked from the object that \<open>json.Unmarshal\<close> left.
\<close>

theorem streetNameParser_exits:
  "(streetNameParser e searchText = Exited 1
      \<longleftrightarrow> httpGet e (parserURL searchText) = GetError
          \<or> (\<exists>status. httpGet e (parserURL searchText) = ReadError status))
   \<and> (\<forall>c. streetNameParser e searchText = Exited c \<longrightarrow> c = 1)
   \<and> streetNameParser e searchText \<noteq> Panicked
   \<and> (\<forall>status body. httpGet e (parserURL searchText) = Reply status body \<longrightarrow>
        streetNameParser e searchText = Returned (pickStreetName (snd (jsonUnmarshal e body))))"
  by (cases "httpGet e (parserURL searchText)") (simp_all add: streetNameParser_def)

theorem streetNameParser_exits_witness:
  "streetNameParser unreachableService (asc ''duong x'') = Exited 1
   \<and> streetNameParser failingService (asc ''duong x'') = Returned (asc ''a'')"
proof -
  have g: "httpGet unreachableService (parserURL (asc ''duong x'')) = GetError"
    by (simp add: unreachableService_def)
  have r: "httpGet failingService (parserURL (asc ''duong x'')) = Reply 500 []"
    by (simp add: failingService_def)
  have p: "pickStreetName (snd (jsonUnmarshal failingService [])) = asc ''a''"
    by (simp add: failingService_def refEnv_def pickStreetName_def streetReply_def asc_def)
  show ?thesis
    using streetNameParser_exits [of unreachableService "asc ''duong x''"]
      streetNameParser_exits [of failingService "asc ''duong x''"] g r p
    by simp
qed

subsection \<open>Accent folding\<close>

lemma SOURCE_CHARACTERS_value:
  "SOURCE_CHARACTERS =
     [[192], [193], [194], [195], [200], [201], [202], [204], [205], [210],
      [211], [212], [213], [217], [218], [221], [224], [225], [226], [227],
      [232], [233], [234], [236], [237], [242], [243], [244], [245], [249],
      [250], [253], [258], [259], [272], [273], [296], [297], [360], [361],
      [416], [417], [431], [432], [7840], [7841], [7842], [7843], [7844], [7845],
      [7846], [7847], [7848], [7849], [7850], [7851], [7852], [7853], [7854], [7855],
      [7856], [7857], [7858], [7859], [7860], [7861], [7862], [7863], [7864], [7865],
      [7866], [7867], [7868], [7869], [7870], [7871], [7872], [7873], [7874], [7875],
      [7876], [7877], [7878], [7879], [7880], [7881], [7882], [7883], [7884], [7885],
      [7886], [7887], [7888], [7889], [7890], [7891], [7892], [7893], [7894], [7895],
      [7896], [7897], [7898], [7899], [7900], [7901], [7902], [7903], [7904], [7905],
      [7906], [7907], [7908], [7909], [7910], [7911], [7912], [7913], [7914], [7915],
      [7916], [7917], [7918], [7919], [7920], [7921], [7929], [7923], [7927], [7925],
      [7928], [7922], [7926], [7924], []]"
  by (simp add: SOURCE_CHARACTERS_def stringToRune_def sourceLiteral_def)

lemma DESTINATION_CHARACTERS_value:
  "DESTINATION_CHARACTERS =
     [[65], [65], [65], [65], [69], [69], [69], [73], [73], [79],
      [79], [79], [79], [85], [85], [89], [97], [97], [97], [97],
      [101], [101], [101], [105], [105], [111], [111], [111], [111], [117],
      [117], [121], [65], [97], [68], [100], [73], [105], [85], [117],
      [79], [111], [85], [117], [65], [97], [65], [97], [65], [97],
      [65], [97], [65], [97], [65], [97], [65], [97], [65], [97],
      [65], [97], [65], [97], [65], [97], [65], [97], [69], [101],
      [69], [101], [69], [101], [69], [101], [69], [101], [69], [101],
      [69], [101], [69], [101], [73], [105], [73], [105], [79], [111],
      [79], [111], [79], [111], [79], [111], [79], [111], [79], [111],
      [79], [111], [79], [111], [79], [111], [79], [111], [79], [111],
      [79], [111], [85], [117], [85], [117], [85], [117], [85], [117],
      [85], [117], [85], [117], [85], [117], [121], [121], [121], [121],
      [121], [121], [121], [121], []]"
  by (simp add: DESTINATION_CHARACTERS_def stringToRune_def destinationLiteral_def asc_def)

lemma LL_LENGTH_value: "LL_LENGTH = 134"
  by (simp add: LL_LENGTH_def stringToRune_def sourceLiteral_def)

lemma table_value:
  "zip sourceLiteral destinationLiteral =
     [(192, 65), (193, 65), (194, 65), (195, 65), (200, 69), (201, 69),
      (202, 69), (204, 73), (205, 73), (210, 79), (211, 79), (212, 79),
      (213, 79), (217, 85), (218, 85), (221, 89), (224, 97), (225, 97),
      (226, 97), (227, 97), (232, 101), (233, 101), (234, 101), (236, 105),
      (237, 105), (242, 111), (243, 111), (244, 111), (245, 111), (249, 117),
      (250, 117), (253, 121), (258, 65), (259, 97), (272, 68), (273, 100),
      (296, 73), (297, 105), (360, 85), (361, 117), (416, 79), (417, 111),
      (431, 85), (432, 117), (7840, 65), (7841, 97), (7842, 65), (7843, 97),
      (7844, 65), (7845, 97), (7846, 65), (7847, 97), (7848, 65), (7849, 97),
      (7850, 65), (7851, 97), (7852, 65), (7853, 97), (7854, 65), (7855, 97),
      (7856, 65), (7857, 97), (7858, 65), (7859, 97), (7860, 65), (7861, 97),
      (7862, 65), (7863, 97), (7864, 69), (7865, 101), (7866, 69), (7867, 101),
      (7868, 69), (7869, 101), (7870, 69), (7871, 101), (7872, 69), (7873, 101),
      (7874, 69), (7875, 101), (7876, 69), (7877, 101), (7878, 69), (7879, 101),
      (7880, 73), (7881, 105), (7882, 73), (7883, 105), (7884, 79), (7885, 111),
      (7886, 79), (7887, 111), (7888, 79), (7889, 111), (7890, 79), (7891, 111),
      (7892, 79), (7893, 111), (7894, 79), (7895, 111), (7896, 79), (7897, 111),
      (7898, 79), (7899, 111), (7900, 79), (7901, 111), (7902, 79), (7903, 111),
      (7904, 79), (7905, 111), (7906, 79), (7907, 111), (7908, 85), (7909, 117),
      (7910, 85), (7911, 117), (7912, 85), (7913, 117), (7914, 85), (7915, 117),
      (7916, 85), (7917, 117), (7918, 85), (7919, 117), (7920, 85), (7921, 117),
      (7929, 121), (7923, 121), (7927, 121), (7925, 121), (7928, 121), (7922, 121),
      (7926, 121), (7924, 121)]"
  by (simp add: sourceLiteral_def destinationLiteral_def asc_def)

lemma length_literals: "length sourceLiteral = 134" "length destinationLiteral = 134"
  by (simp_all add: sourceLiteral_def destinationLiteral_def asc_def)

lemma goDiv_mid:
  "low \<le> high \<Longrightarrow> 0 \<le> low \<Longrightarrow> low \<le> goDiv (low + high) 2 \<and> goDiv (low + high) 2 \<le> high"
  by (auto simp: goDiv_def sgn_if)

lemma binarySearch_found:
  "binarySearch arr key low high = Some m \<Longrightarrow> 0 \<le> m \<Longrightarrow>
   nat m < length arr \<and> arr ! nat m = key"
proof (induction arr key low high rule: binarySearch.induct)
  case (1 sortedArray key low high)
  show ?case
    using "1.prems" "1.IH"
    by (subst (asm) binarySearch.simps) (auto split: if_splits)
qed

lemma binarySearch_no_panic:
  "0 \<le> low \<Longrightarrow> high < int (length arr) \<Longrightarrow> binarySearch arr key low high \<noteq> None"
proof (induction arr key low high rule: binarySearch.induct)
  case (1 sortedArray key low high)
  show ?case
  proof (cases "high < low")
    case True
    then show ?thesis by (subst binarySearch.simps) simp
  next
    case False
    then have mid: "low \<le> goDiv (low + high) 2" "goDiv (low + high) 2 \<le> high"
      using goDiv_mid [of low high] "1.prems" by auto
    show ?thesis
      using False mid "1.prems" "1.IH"
      by (subst binarySearch.simps) auto
  qed
qed

lemma table_chunk_1:
  "list_all (\<lambda>c. removeAccentChar [c] = Some [specAccentFold c])
     [192, 193, 194, 195, 200, 201, 202, 204, 205, 210, 211, 212,
      213, 217, 218, 221]"
  by (simp add: removeAccentChar_def LL_LENGTH_value binarySearch.simps goDiv_def
      SOURCE_CHARACTERS_value DESTINATION_CHARACTERS_value specAccentFold_def table_value)

lemma table_chunk_2:
  "list_all (\<lambda>c. removeAccentChar [c] = Some [specAccentFold c])
     [224, 225, 226, 227, 232, 233, 234, 236, 237, 242, 243, 244,
      245, 249, 250, 253]"
  by (simp add: removeAccentChar_def LL_LENGTH_value binarySearch.simps goDiv_def
      SOURCE_CHARACTERS_value DESTINATION_CHARACTERS_value specAccentFold_def table_value)

lemma table_chunk_3:
  "list_all (\<lambda>c. removeAccentChar [c] = Some [specAccentFold c])
     [258, 259, 272, 273, 296, 297, 360, 361, 416, 417, 431, 432,
      7840, 7841, 7842, 7843]"
  by (simp add: removeAccentChar_def LL_LENGTH_value binarySearch.simps goDiv_def
      SOURCE_CHARACTERS_value DESTINATION_CHARACTERS_value specAccentFold_def table_value)

lemma table_chunk_4:
  "list_all (\<lambda>c. removeAccentChar [c] = Some [specAccentFold c])
     [7844, 7845, 7846, 7847, 7848, 7849, 7850, 7851, 7852, 7853, 7854, 7855,
      7856, 7857, 7858, 7859]"
  by (simp add: removeAccentChar_def LL_LENGTH_value binarySearch.simps goDiv_def
      SOURCE_CHARACTERS_value DESTINATION_CHARACTERS_value specAccentFold_def table_value)

lemma table_chunk_5:
  "list_all (\<lambda>c. removeAccentChar [c] = Some [specAccentFold c])
     [7860, 7861, 7862, 7863, 7864, 7865, 7866, 7867, 7868, 7869, 7870, 7871,
      7872, 7873, 7874, 7875]"
  by (simp add: removeAccentChar_def LL_LENGTH_value binarySearch.simps goDiv_def
      SOURCE_CHARACTERS_value DESTINATION_CHARACTERS_value specAccentFold_def table_value)

lemma table_chunk_6:
  "list_all (\<lambda>c. removeAccentChar [c] = Some [specAccentFold c])
     [7876, 7877, 7878, 7879, 7880, 7881, 7882, 7883, 7884, 7885, 7886, 7887,
      7888, 7889, 7890, 7891]"
  by (simp add: removeAccentChar_def LL_LENGTH_value binarySearch.simps goDiv_def
      SOURCE_CHARACTERS_value DESTINATION_CHARACTERS_value specAccentFold_def table_value)

lemma table_chunk_7:
  "list_all (\<lambda>c. removeAccentChar [c] = Some [specAccentFold c])
     [7892, 7893, 7894, 7895, 7896, 7897, 7898, 7899, 7900, 7901, 7902, 7903,
      7904, 7905, 7906, 7907]"
  by (simp add: removeAccentChar_def LL_LENGTH_value binarySearch.simps goDiv_def
      SOURCE_CHARACTERS_value DESTINATION_CHARACTERS_value specAccentFold_def table_value)

lemma table_chunk_8:
  "list_all (\<lambda>c. removeAccentChar [c] = Some [specAccentFold c])
     [7908, 7909, 7910, 7911, 7912, 7913, 7914, 7915, 7916, 7917, 7918, 7919,
      7920, 7921, 7929]"
  by (simp add: removeAccentChar_def LL_LENGTH_value binarySearch.simps goDiv_def
      SOURCE_CHARACTERS_value DESTINATION_CHARACTERS_value specAccentFold_def table_value)

lemma table_tail:
  "list_all (\<lambda>c. removeAccentChar [c] = Some [c]) [7923, 7927, 7925, 7928, 7922, 7926, 7924]"
  by (simp add: removeAccentChar_def LL_LENGTH_value binarySearch.simps goDiv_def
      SOURCE_CHARACTERS_value DESTINATION_CHARACTERS_value)

lemma sourceLiteral_parts:
  "sourceLiteral =
     [192, 193, 194, 195, 200, 201, 202, 204, 205, 210, 211, 212,
      213, 217, 218, 221]
     @ [224, 225, 226, 227, 232, 233, 234, 236, 237, 242, 243, 244,
      245, 249, 250, 253]
     @ [258, 259, 272, 273, 296, 297, 360, 361, 416, 417, 431, 432,
      7840, 7841, 7842, 7843]
     @ [7844, 7845, 7846, 7847, 7848, 7849, 7850, 7851, 7852, 7853, 7854, 7855,
      7856, 7857, 7858, 7859]
     @ [7860, 7861, 7862, 7863, 7864, 7865, 7866, 7867, 7868, 7869, 7870, 7871,
      7872, 7873, 7874, 7875]
     @ [7876, 7877, 7878, 7879, 7880, 7881, 7882, 7883, 7884, 7885, 7886, 7887,
      7888, 7889, 7890, 7891]
     @ [7892, 7893, 7894, 7895, 7896, 7897, 7898, 7899, 7900, 7901, 7902, 7903,
      7904, 7905, 7906, 7907]
     @ [7908, 7909, 7910, 7911, 7912, 7913, 7914, 7915, 7916, 7917, 7918, 7919,
      7920, 7921, 7929]
     @ [7923, 7927, 7925, 7928, 7922, 7926, 7924]"
  by (simp add: sourceLiteral_def)

lemma SOURCE_CHARACTERS_set: "set SOURCE_CHARACTERS = (\<lambda>c. [c]) ` set sourceLiteral \<union> {[]}"
  by (auto simp: SOURCE_CHARACTERS_def stringToRune_def)

lemma removeAccentChar_outside:
  assumes "c \<notin> set sourceLiteral"
  shows "removeAccentChar [c] = Some [c]"
proof -
  have "LL_LENGTH < int (length SOURCE_CHARACTERS)"
    by (simp add: LL_LENGTH_def SOURCE_CHARACTERS_def stringToRune_def)
  then have "binarySearch SOURCE_CHARACTERS [c] 0 LL_LENGTH \<noteq> None"
    by (intro binarySearch_no_panic) simp_all
  then obtain m where m: "binarySearch SOURCE_CHARACTERS [c] 0 LL_LENGTH = Some m"
    by auto
  have "m < 0"
  proof (rule ccontr)
    assume "\<not> m < 0"
    then have "nat m < length SOURCE_CHARACTERS \<and> SOURCE_CHARACTERS ! nat m = [c]"
      using binarySearch_found [OF m] by simp
    then have "[c] \<in> set SOURCE_CHARACTERS"
      using nth_mem by metis
    then show False
      using assms by (auto simp: SOURCE_CHARACTERS_set)
  qed
  then show ?thesis
    by (simp add: removeAccentChar_def m)
qed

lemma specAccentFold_outside: "c \<notin> set sourceLiteral \<Longrightarrow> specAccentFold c = c"
proof -
  assume "c \<notin> set sourceLiteral"
  then have "map_of (zip sourceLiteral destinationLiteral) c = None"
    by (subst map_of_zip_is_None) (simp_all add: length_literals)
  then show ?thesis
    by (simp add: specAccentFold_def)
qed

lemma removeAccentChar_all:
  "removeAccentChar [c]
     = Some [if c \<in> {7923, 7927, 7925, 7928, 7922, 7926, 7924} then c else specAccentFold c]"
proof (cases "c \<in> set sourceLiteral")
  case False
  then have "c \<notin> {7923, 7927, 7925, 7928, 7922, 7926, 7924}"
    by (auto simp: sourceLiteral_parts)
  with False show ?thesis
    by (simp add: removeAccentChar_outside specAccentFold_outside)
next
  case True
  then consider "c \<in> set [192, 193, 194, 195, 200, 201, 202, 204, 205, 210, 211, 212,
        213, 217, 218, 221]"
    | "c \<in> set [224, 225, 226, 227, 232, 233, 234, 236, 237, 242, 243, 244,
        245, 249, 250, 253]"
    | "c \<in> set [258, 259, 272, 273, 296, 297, 360, 361, 416, 417, 431, 432,
        7840, 7841, 7842, 7843]"
    | "c \<in> set [7844, 7845, 7846, 7847, 7848, 7849, 7850, 7851, 7852, 7853, 7854, 7855,
        7856, 7857, 7858, 7859]"
    | "c \<in> set [7860, 7861, 7862, 7863, 7864, 7865, 7866, 7867, 7868, 7869, 7870, 7871,
        7872, 7873, 7874, 7875]"
    | "c \<in> set [7876, 7877, 7878, 7879, 7880, 7881, 7882, 7883, 7884, 7885, 7886, 7887,
        7888, 7889, 7890, 7891]"
    | "c \<in> set [7892, 7893, 7894, 7895, 7896, 7897, 7898, 7899, 7900, 7901, 7902, 7903,
        7904, 7905, 7906, 7907]"
    | "c \<in> set [7908, 7909, 7910, 7911, 7912, 7913, 7914, 7915, 7916, 7917, 7918, 7919,
        7920, 7921, 7929]"
    | "c \<in> {7923, 7927, 7925, 7928, 7922, 7926, 7924}"
    by (subst (asm) sourceLiteral_parts) auto
  then show ?thesis
  proof cases
    case 1
    then have "removeAccentChar [c] = Some [specAccentFold c]"
      using table_chunk_1 by (simp only: list_all_iff)
    moreover have "c \<notin> {7923, 7927, 7925, 7928, 7922, 7926, 7924}"
      using 1 by auto
    ultimately show ?thesis
      by simp
  next
    case 2
    then have "removeAccentChar [c] = Some [specAccentFold c]"
      using table_chunk_2 by (simp only: list_all_iff)
    moreover have "c \<notin> {7923, 7927, 7925, 7928, 7922, 7926, 7924}"
      using 2 by auto
    ultimately show ?thesis
      by simp
  next
    case 3
    then have "removeAccentChar [c] = Some [specAccentFold c]"
      using table_chunk_3 by (simp only: list_all_iff)
    moreover have "c \<notin> {7923, 7927, 7925, 7928, 7922, 7926, 7924}"
      using 3 by auto
    ultimately show ?thesis
      by simp
  next
    case 4
    then have "removeAccentChar [c] = Some [specAccentFold c]"
      using table_chunk_4 by (simp only: list_all_iff)
    moreover have "c \<notin> {7923, 7927, 7925, 7928, 7922, 7926, 7924}"
      using 4 by auto
    ultimately show ?thesis
      by simp
  next
    case 5
    then have "removeAccentChar [c] = Some [specAccentFold c]"
      using table_chunk_5 by (simp only: list_all_iff)
    moreover have "c \<notin> {7923, 7927, 7925, 7928, 7922, 7926, 7924}"
      using 5 by auto
    ultimately show ?thesis
      by simp
  next
    case 6
    then have "removeAccentChar [c] = Some [specAccentFold c]"
      using table_chunk_6 by (simp only: list_all_iff)
    moreover have "c \<notin> {7923, 7927, 7925, 7928, 7922, 7926, 7924}"
      using 6 by auto
    ultimately show ?thesis
      by simp
  next
    case 7
    then have "removeAccentChar [c] = Some [specAccentFold c]"
      using table_chunk_7 by (simp only: list_all_iff)
    moreover have "c \<notin> {7923, 7927, 7925, 7928, 7922, 7926, 7924}"
      using 7 by auto
    ultimately show ?thesis
      by simp
  next
    case 8
    then have "removeAccentChar [c] = Some [specAccentFold c]"
      using table_chunk_8 by (simp only: list_all_iff)
    moreover have "c \<notin> {7923, 7927, 7925, 7928, 7922, 7926, 7924}"
      using 8 by auto
    ultimately show ?thesis
      by simp
  next
    case 9
    then show ?thesis
      using table_tail by auto
  qed
qed

lemma contains_single: "contains s [a] \<longleftrightarrow> a \<in> set s"
  by (induction s) auto

lemma contains_pair: "m \<notin> set s \<Longrightarrow> \<not> contains s [a, m]"
proof (induction s)
  case Nil
  show ?case by simp
next
  case (Cons x xs)
  then show ?case
    by (cases xs) auto
qed

lemma replaceFrom_single: "replaceFrom [a] [b] s = map (\<lambda>c. if c = a then b else c) s"
  by (induction s) auto

lemma replaceStep_single: "replaceStep s ([a], [b]) = map (\<lambda>c. if c = a then b else c) s"
proof (cases "a \<in> set s")
  case True
  then show ?thesis
    by (simp add: replaceStep_def contains_single ReplaceAll_def replaceFrom_single)
next
  case False
  then have "map (\<lambda>c. if c = a then b else c) s = s"
    by (induction s) auto
  with False show ?thesis
    by (simp add: replaceStep_def contains_single)
qed

lemma replaceStep_plain:
  assumes "\<forall>c \<in> set s. c \<notin> combiningMarks" "plainReplacement r"
  shows "replaceStep s r = map (\<lambda>c. replaceCodePoint c r) s
       \<and> (\<forall>c \<in> set (replaceStep s r). c \<notin> combiningMarks)"
proof (cases r rule: plainReplacement.cases)
  case (1 a b)
  then show ?thesis
    using assms by (auto simp: replaceStep_single)
next
  case (2 a m new)
  then have "m \<notin> set s"
    using assms by auto
  then have "replaceStep s r = s"
    using 2 by (simp add: replaceStep_def contains_pair)
  moreover have "map (\<lambda>c. replaceCodePoint c r) s = s"
    using 2 by (induction s) auto
  ultimately show ?thesis
    using assms by simp
qed (use assms in auto)

lemma replacements_plain:
  "\<forall>c \<in> set s. c \<notin> combiningMarks \<Longrightarrow> list_all plainReplacement rs \<Longrightarrow>
   foldl replaceStep s rs = map (\<lambda>c. foldl replaceCodePoint c rs) s"
proof (induction rs arbitrary: s)
  case Nil
  show ?case by simp
next
  case (Cons r rs)
  have step: "replaceStep s r = map (\<lambda>c. replaceCodePoint c r) s"
    and keep: "\<forall>c \<in> set (replaceStep s r). c \<notin> combiningMarks"
    using replaceStep_plain [of s r] Cons.prems by auto
  have "foldl replaceStep (replaceStep s r) rs
      = map (\<lambda>c. foldl replaceCodePoint c rs) (replaceStep s r)"
    using Cons.IH [OF keep] Cons.prems by simp
  then show ?case
    by (simp add: step)
qed

lemma all_replacements_plain: "list_all plainReplacement replacements"
  by (simp add: replacements_def asc_def combiningMarks_def)

lemma replaceCodePoint_all:
  "foldl replaceCodePoint c replacements =
     (if c = 7927 \<or> c = 7923 \<or> c = 7925 then 121
      else if c = 242 then 111 else if c = 240 then 100 else if c = 227 then 97
      else if c = 303 then 105 else c)"
  by (simp add: replacements_def asc_def)

lemma those_Some: "those (map (\<lambda>c. Some (f c)) s) = Some (map f s)"
  by (induction s) auto

lemma removeAccent_plain:
  assumes "\<forall>c \<in> set s. c \<notin> combiningMarks"
  shows "removeAccent s
     = Some (map (\<lambda>c. let r = foldl replaceCodePoint c replacements
                       in if r \<in> {7923, 7927, 7925, 7928, 7922, 7926, 7924} then r
                          else specAccentFold r) s)"
proof -
  have "foldl replaceStep s replacements = map (\<lambda>c. foldl replaceCodePoint c replacements) s"
    by (rule replacements_plain [OF assms all_replacements_plain])
  then show ?thesis
    by (simp add: removeAccent_def removeAccentChar_all comp_def those_Some Let_def)
qed









subsection \<open>The refusal guard of the merge stages\<close>























subsection \<open>Names that the normalisation skips\<close>

lemma dropped_update: "st \<noteq> p \<Longrightarrow> dropped e (h(st := x)) p = dropped e h p"
  by (simp add: dropped_def)

lemma normalize_skip:
  "dropped e h p \<Longrightarrow>
   normalizeStreets e (h, nm) (p # rest) = normalizeStreets e (h, nm) rest"
  by (auto simp: dropped_def noiseName_def split: option.splits)

lemma normalize_step:
  assumes "\<not> dropped e h st"
  shows "normalizeStreets e (h, nm) (st # rest) =
     (case removeAccent (toLower e (Name (h st))) of
        None \<Rightarrow> Panicked
      | Some folded \<Rightarrow>
          (case (if \<not> hasPrefix (toLower e (Name (h st))) [273, 432, 7901, 110, 103]
                 then streetNameParser e (asc ''duong '' @ folded)
                 else streetNameParser e folded) of
             Exited c \<Rightarrow> Exited c
           | Panicked \<Rightarrow> Panicked
           | Returned parsed \<Rightarrow>
               if parsed = [] then normalizeStreets e (h, nm) rest
               else normalizeStreets e
                      (h(st := (h st)\<lparr>Name := parsed\<rparr>), mapAppend nm parsed st) rest))"
  using assms by (auto simp: dropped_def noiseName_def Let_def split: option.splits)

lemma normalize_filter:
  "dropped e h p \<Longrightarrow>
   normalizeStreets e (h, nm) streets
     = normalizeStreets e (h, nm) (filter (\<lambda>r. r \<noteq> p) streets)"
proof (induction streets arbitrary: h nm)
  case Nil
  show ?case by simp
next
  case (Cons st rest)
  show ?case
  proof (cases "st = p")
    case True
    then show ?thesis
      using Cons.IH [OF Cons.prems] normalize_skip [OF Cons.prems]
      by (simp del: normalizeStreets.simps)
  next
    case False
    have a: "normalizeStreets e (h, nm) rest
        = normalizeStreets e (h, nm) (filter (\<lambda>r. r \<noteq> p) rest)"
      by (rule Cons.IH [OF Cons.prems])
    have d: "dropped e (h(st := x)) p" for x
      using dropped_update [OF False, of e h x] Cons.prems by simp
    have b: "normalizeStreets e (h(st := x), nm') rest
        = normalizeStreets e (h(st := x), nm') (filter (\<lambda>r. r \<noteq> p) rest)" for x nm'
      by (rule Cons.IH [OF d])
    show ?thesis
    proof (cases "dropped e h st")
      case True
      then show ?thesis
        using False a normalize_skip [of e h st nm]
        by (simp del: normalizeStreets.simps)
    next
      case nd: False
      show ?thesis
        using False
        by (simp add: normalize_step [OF nd] a b del: normalizeStreets.simps
            cong: option.case_cong outcome.case_cong if_cong)
    qed
  qed
qed

lemma refsOf_mapAppend: "refsOf (mapAppend m k s) = insert s (refsOf m)"
  by (induction m k s rule: mapAppend.induct) (auto simp: refsOf_def)

lemma normalize_no_bucket:
  "dropped e h p \<Longrightarrow> p \<notin> refsOf nm \<Longrightarrow>
   normalizeStreets e (h, nm) streets = Returned (h', nm') \<Longrightarrow>
   p \<notin> refsOf nm' \<and> h' p = h p"
proof (induction streets arbitrary: h nm)
  case Nil
  then show ?case by simp
next
  case (Cons st rest)
  show ?case
  proof (cases "dropped e h st")
    case True
    then show ?thesis
      using Cons.IH [of h nm] Cons.prems normalize_skip [of e h st nm rest]
      by (simp del: normalizeStreets.simps)
  next
    case nd: False
    then have ne: "st \<noteq> p"
      using Cons.prems(1) by blast
    have k: "p \<notin> refsOf (mapAppend nm parsed st)" for parsed
      using ne Cons.prems(2) by (simp add: refsOf_mapAppend)
    have d: "dropped e (h(st := x)) p" for x
      using dropped_update [OF ne, of e h x] Cons.prems(1) by simp
    have u: "p \<notin> refsOf nm' \<and> h' p = h p"
      if "normalizeStreets e (h(st := x), mapAppend nm parsed st) rest = Returned (h', nm')"
      for x parsed
      using Cons.IH [OF d k that] ne by simp
    have v: "p \<notin> refsOf nm' \<and> h' p = h p"
      if "normalizeStreets e (h, nm) rest = Returned (h', nm')"
      using Cons.IH [OF Cons.prems(1) Cons.prems(2) that] .
    show ?thesis
      using Cons.prems(3) u v
      by (auto simp: normalize_step [OF nd] simp del: normalizeStreets.simps
          split: option.splits outcome.splits if_splits)
  qed
qed

lemma join_filter:
  "dropped e h p \<Longrightarrow>
   joinStreets e h streets = joinStreets e h (filter (\<lambda>r. r \<noteq> p) streets)"
  using normalize_filter [of e h p "[]" streets] by (simp add: joinStreets_def)

lemma specAccentFold_low: "c < 192 \<Longrightarrow> specAccentFold c = c"
  by (simp add: specAccentFold_def table_value)

lemma removeAccent_low:
  assumes "\<forall>c \<in> set s. c < 192"
  shows "removeAccent s = Some s"
proof -
  have nm: "\<forall>c \<in> set s. c \<notin> combiningMarks"
    using assms by (auto simp: combiningMarks_def)
  have "(let r = foldl replaceCodePoint c replacements
          in if r \<in> {7923, 7927, 7925, 7928, 7922, 7926, 7924} then r else specAccentFold r) = c"
    if "c \<in> set s" for c
  proof -
    have "c < 192"
      using assms that by blast
    then show ?thesis
      by (simp add: replaceCodePoint_all specAccentFold_low Let_def)
  qed
  then have "map (\<lambda>c. let r = foldl replaceCodePoint c replacements
                       in if r \<in> {7923, 7927, 7925, 7928, 7922, 7926, 7924} then r
                          else specAccentFold r) s = s"
    by (simp add: map_idI)
  then show ?thesis
    using removeAccent_plain [OF nm] by simp
qed

lemma parser_refEnv: "streetNameParser refEnv t = Returned (asc ''a'')"
  by (simp add: streetNameParser_def refEnv_def pickStreetName_def streetReply_def asc_def)

lemma lower_refEnv: "toLower refEnv = asciiLower"
  by (simp add: refEnv_def)

lemma noisy_dropped: "dropped refEnv noisyStore 0"
  by (simp add: dropped_def noiseName_def noisyStore_def mkStreet_def lower_refEnv
      removeAccent_low asciiLower_def hasPrefix_def asc_def)

lemma noisy_normalize:
  "normalizeStreets refEnv (noisyStore, []) [0, 1]
     = Returned (noisyStore(1 := (noisyStore 1)\<lparr>Name := asc ''a''\<rparr>), [(asc ''a'', [1])])"
  by (simp add: noisyStore_def mkStreet_def lower_refEnv parser_refEnv
      removeAccent_low asciiLower_def hasPrefix_def asc_def Let_def)

text \<open>
  C6. A street whose lowercased, accent-folded name starts with \<open>kiet\<close>, \<open>hem\<close>, \<open>cau\<close> or
  \<open>vong xuyen\<close>, or is \<open>ngo chu huy man\<close>, is dropped by the first loop of \<open>joinStreets\<close>:
  the loop and the whole of \<open>joinStreets\<close> give what they give for the list without that
  street, the street is in no bucket of the map that the loop builds, and it keeps its
  record.
\<close>

theorem noise_names_dropped:
  assumes "dropped e h p"
  shows "normalizeStreets e (h, []) streets
       = normalizeStreets e (h, []) (filter (\<lambda>r. r \<noteq> p) streets)
     \<and> joinStreets e h streets = joinStreets e h (filter (\<lambda>r. r \<noteq> p) streets)
     \<and> (\<forall>h' nameMap. normalizeStreets e (h, []) streets = Returned (h', nameMap)
          \<longrightarrow> p \<notin> refsOf nameMap \<and> h' p = h p)"
  using normalize_filter [OF assms, of "[]" streets] join_filter [OF assms, of streets]
    normalize_no_bucket [OF assms, of "[]" streets]
  by (simp add: refsOf_def)

theorem noise_names_dropped_witness:
  "dropped refEnv noisyStore 0
   \<and> normalizeStreets refEnv (noisyStore, []) [0, 1]
       = normalizeStreets refEnv (noisyStore, []) [1]
   \<and> normalizeStreets refEnv (noisyStore, []) [0, 1]
       = Returned (noisyStore(1 := (noisyStore 1)\<lparr>Name := asc ''a''\<rparr>), [(asc ''a'', [1])])
   \<and> joinStreets refEnv noisyStore [0, 1] = joinStreets refEnv noisyStore [1]
   \<and> 0 \<notin> refsOf [(asc ''a'', [1])]"
  using noise_names_dropped [OF noisy_dropped, of "[0, 1]"] noisy_normalize noisy_dropped
  by (simp add: refsOf_def del: normalizeStreets.simps)


subsection \<open>The order of the output\<close>

lemma itoa_small: "itoa 0 = [48]" "itoa 1 = [49]" "itoa 2 = [50]"
  by simp_all

lemmas stage_eval = Let_def asciiLower_def asc_def distPanics_def anyEmptyPath_def
  shortestDistanceToOtherStreets_def getShortestDistance_def pathFirst_def pathLast_def
  euclidean_horizontal removeStreet_def sortStreetsDescLength_def sortInner_def
  polylineLength_def segments_def andThen_def goFor_def while_option_unfold

lemma far_proximity:
  assumes "Name (h 0) = asc ''a''" "Name (h 1) = asc ''a''"
    "Path (h 0) = [(Fin 0, Fin 0), (Fin 1, Fin 0)]"
    "Path (h 1) = [(Fin 10, Fin 0), (Fin 11, Fin 0)]"
  shows "proximityStage refEnv h [(asc ''a'', [0, 1])]
       = Some (Returned [(asc ''a__1'', [0]), (asc ''a__2'', [1])])"
    "proximityStage reversedOrder h [(asc ''a'', [0, 1])]
       = Some (Returned [(asc ''a__1'', [0]), (asc ''a__2'', [1])])"
  using assms
  by (simp_all add: proximityStage_def proximityGroups_def proximityBody_def refEnv_def
      reversedOrder_def distanceGroup_def stage_eval)

lemma far_direction:
  assumes "Oneway (h 0) = []" "Oneway (h 1) = []"
    "Path (h 0) = [(Fin 0, Fin 0), (Fin 1, Fin 0)]"
    "Path (h 1) = [(Fin 10, Fin 0), (Fin 11, Fin 0)]"
  shows "directionStage refEnv h [(asc ''a__1'', [0]), (asc ''a__2'', [1])]
       = Some (Returned [(asc ''a__1'', [0]), (asc ''a__2'', [1])])"
    "directionStage reversedOrder h [(asc ''a__1'', [0]), (asc ''a__2'', [1])]
       = Some (Returned [(asc ''a__1'', [0]), (asc ''a__2'', [1])])"
  using assms
  by (simp_all add: directionStage_def directionGroups_def directionBody_def refEnv_def
      reversedOrder_def dropHeadAtEnd_def stage_eval)

lemma far_sameDirection:
  "mergeStreetSameDirection refEnv h [(asc ''a__1'', [0]), (asc ''a__2'', [1])]
       = Some (Returned (h, [(asc ''a__1'', [0]), (asc ''a__2'', [1])]))"
  "mergeStreetSameDirection reversedOrder h [(asc ''a__1'', [0]), (asc ''a__2'', [1])]
       = Some (Returned (h, [(asc ''a__1'', [0]), (asc ''a__2'', [1])]))"
  by (simp_all add: mergeStreetSameDirection_def mergeSameDirectionEntry_def
      mergeSameDirectionBody_def refEnv_def reversedOrder_def stage_eval)

lemma far_lane:
  "mergeLaneSameDirection refEnv h [(asc ''a__1'', [0]), (asc ''a__2'', [1])]
       = Some (Returned (h, [(asc ''a__1'', [0]), (asc ''a__2'', [1])]))"
  "mergeLaneSameDirection reversedOrder h [(asc ''a__1'', [0]), (asc ''a__2'', [1])]
       = Some (Returned (h, [(asc ''a__1'', [0]), (asc ''a__2'', [1])]))"
  by (simp_all add: mergeLaneSameDirection_def mergeLaneEntry_def
      refEnv_def reversedOrder_def stage_eval)

lemma far_final:
  assumes "Path (h 0) = [(Fin 0, Fin 0), (Fin 1, Fin 0)]"
    "Path (h 1) = [(Fin 10, Fin 0), (Fin 11, Fin 0)]"
  shows "mergeStreet refEnv h [(asc ''a__1'', [0]), (asc ''a__2'', [1])]
       = Some (Returned (h, [(asc ''a'', [0, 1])]))"
    "mergeStreet reversedOrder h [(asc ''a__1'', [0]), (asc ''a__2'', [1])]
       = Some (Returned (h, [(asc ''a'', [1, 0])]))"
  using assms
  by (simp_all add: mergeStreet_def mergeStreetEntry_def refEnv_def reversedOrder_def
      stage_eval)

lemma far_emit:
  "emitSorted refEnv [(asc ''a'', ss)] = ss"
  "emitSorted reversedOrder [(asc ''a'', ss)] = ss"
  by (simp_all add: emitSorted_def refEnv_def reversedOrder_def sortStrings_def asc_def)

lemma far_joinNormalized:
  assumes "Name (h 0) = asc ''a''" "Name (h 1) = asc ''a''"
    "Oneway (h 0) = []" "Oneway (h 1) = []"
    "Path (h 0) = [(Fin 0, Fin 0), (Fin 1, Fin 0)]"
    "Path (h 1) = [(Fin 10, Fin 0), (Fin 11, Fin 0)]"
  shows "joinNormalized refEnv (h, [(asc ''a'', [0, 1])]) = Some (Returned (h, [0, 1]))"
    "joinNormalized reversedOrder (h, [(asc ''a'', [0, 1])]) = Some (Returned (h, [1, 0]))"
  by (simp_all add: joinNormalized_def andThen_def far_proximity [OF assms(1,2,5,6)]
      far_direction [OF assms(3,4,5,6)] far_sameDirection far_lane
      far_final [OF assms(5,6)] far_emit del: One_nat_def)

lemma parser_reversed: "streetNameParser reversedOrder t = Returned (asc ''a'')"
  by (simp add: streetNameParser_def reversedOrder_def refEnv_def pickStreetName_def
      streetReply_def asc_def)

lemma lower_reversed: "toLower reversedOrder = asciiLower"
  by (simp add: reversedOrder_def refEnv_def)

lemma far_streets:
  "Name (farStore r) = asc ''a''" "Oneway (farStore r) = []"
  "Path (farStore 0) = [(Fin 0, Fin 0), (Fin 1, Fin 0)]"
  "Path (farStore 1) = [(Fin 10, Fin 0), (Fin 11, Fin 0)]"
  by (simp_all add: farStore_def mkStreet_def)

lemma far_rename: "Name (farStore r) = n \<Longrightarrow> farStore(r := (farStore r)\<lparr>Name := n\<rparr>) = farStore"
  by (auto simp: fun_eq_iff)

lemma far_normalize:
  "normalizeStreets refEnv (farStore, []) [0, 1] = Returned (farStore, [(asc ''a'', [0, 1])])"
  "normalizeStreets reversedOrder (farStore, []) [0, 1]
     = Returned (farStore, [(asc ''a'', [0, 1])])"
  by (simp_all add: lower_refEnv lower_reversed parser_refEnv parser_reversed far_streets
      far_rename removeAccent_low asciiLower_def hasPrefix_def asc_def Let_def)

lemma far_records:
  "outputRecords (farStore, [0, 1])
     = [([(Fin 0, Fin 0), (Fin 1, Fin 0)], asc ''a''), ([(Fin 10, Fin 0), (Fin 11, Fin 0)], asc ''a'')]"
  "outputRecords (farStore, [1, 0])
     = [([(Fin 10, Fin 0), (Fin 11, Fin 0)], asc ''a''), ([(Fin 0, Fin 0), (Fin 1, Fin 0)], asc ''a'')]"
  by (simp_all add: outputRecords_def far_streets del: One_nat_def)

text \<open>
  C1 fails on the code. The two streets of \<open>farStore\<close> reach \<open>mergeStreet\<close> under the keys
  \<open>a__1\<close> and \<open>a__2\<close>, which both strip to \<open>a\<close>; the loop of line 1725 appends them to
  the bucket of \<open>a\<close> in the order in which it visits the map. With the same streets and
  the same parser, the two orders give the two streets in the two orders in the output.
\<close>

theorem output_order_follows_map_order:
  "joinStreets refEnv farStore [0, 1] = Some (Returned (farStore, [0, 1]))
   \<and> joinStreets reversedOrder farStore [0, 1] = Some (Returned (farStore, [1, 0]))
   \<and> outputRecords (farStore, [0, 1]) \<noteq> outputRecords (farStore, [1, 0])"
proof -
  have a: "joinStreets refEnv farStore [0, 1] = Some (Returned (farStore, [0, 1]))"
    by (simp add: joinStreets_def andThen_def far_normalize
        far_joinNormalized [of farStore, OF far_streets(1) far_streets(1) far_streets(2)
          far_streets(2) far_streets(3) far_streets(4)]
        del: One_nat_def normalizeStreets.simps)
  have b: "joinStreets reversedOrder farStore [0, 1] = Some (Returned (farStore, [1, 0]))"
    by (simp add: joinStreets_def andThen_def far_normalize
        far_joinNormalized [of farStore, OF far_streets(1) far_streets(1) far_streets(2)
          far_streets(2) far_streets(3) far_streets(4)]
        del: One_nat_def normalizeStreets.simps)
  have c: "outputRecords (farStore, [0, 1]) \<noteq> outputRecords (farStore, [1, 0])"
    by (simp add: far_records del: One_nat_def)
  show ?thesis
    using a b c by blast
qed


subsection \<open>The temporary file\<close>

lemma parser_unreachable: "streetNameParser unreachableService t = Exited 1"
  by (simp add: streetNameParser_def unreachableService_def)

lemma lower_unreachable: "toLower unreachableService = asciiLower"
  by (simp add: unreachableService_def refEnv_def)

lemma far_unreachable: "normalizeStreets unreachableService (farStore, []) [0, 1] = Exited 1"
  by (simp add: lower_unreachable parser_unreachable farStore_def mkStreet_def
      removeAccent_low asciiLower_def hasPrefix_def asc_def Let_def)

text \<open>
  C5 fails on the code. \<open>os.Remove\<close> is deferred (line 141), and \<open>os.Exit\<close> does not run
  deferred calls: a run without arguments exits at line 494 with status 1, and a run whose
  parser service cannot be reached exits at line 823 with status 1, and both leave the
  temporary file behind.
\<close>

theorem temporary_file_left_on_exit:
  "StreetMerge e pr st \<lparr>args = [], formatFlag = f, delimFlag = d, extendedFlag = x\<rparr>
     = Some (1, \<lparr>tempFile = True, stdout = []\<rparr>)
   \<and> StreetMerge unreachableService pr
        \<lparr>parseFile = Returned (), loadStreets = Returned (farStore, [0, 1])\<rparr>
        \<lparr>args = [asc ''map.pbf''], formatFlag = f, delimFlag = d, extendedFlag = x\<rparr>
     = Some (1, \<lparr>tempFile = True, stdout = []\<rparr>)"
  by (simp add: StreetMerge_def streetMergeBody_def parsePBF_def joinStreets_def andThen_def
      far_unreachable del: One_nat_def normalizeStreets.simps)

end
